theory Spec2Isabelle
  imports
    Main
    "HOL-Library.Multiset"
    "HOL-Library.Char_ord"
    "HOL-Library.List_Lexorder"
    "HOL-Library.Sublist"
begin

section \<open>Plan reconciliation of terraform-plugin-framework\<close>

text \<open>
  A shallow embedding of \<^verbatim>\<open>internal/proto6server/serve.go\<close> (the functions
  \<^verbatim>\<open>markComputedNilsAsUnknown\<close>, \<^verbatim>\<open>planResourceChange\<close> and
  \<^verbatim>\<open>normaliseRequiresReplace\<close>) and of \<^verbatim>\<open>internal/fwschema/diagnostics.go\<close>.

  Conventions.
  \<^item> A Go function returning \<^verbatim>\<open>(T, error)\<close> returns \<open>error + T\<close>: \<open>Inl err\<close> is the
    non-nil error, \<open>Inr x\<close> the result with a nil error.
  \<^item> Functions of other packages (\<^verbatim>\<open>tftypes\<close>, \<^verbatim>\<open>tfprotov6\<close>, \<^verbatim>\<open>sort\<close>, \<^verbatim>\<open>fmt\<close>, and the
    packages of this repository whose sources are not part of this development) are
    parameters of the functions that call them. Provider-defined callbacks are parameters
    too, and are taken to be functions of their arguments.
  \<^item> Strings are byte strings; \<open><\<close> on them is the bytewise lexicographic order, as Go's.
  \<^item> Logging calls and the \<^verbatim>\<open>context.Context\<close> argument are left out.
\<close>

subsection \<open>Values, paths and errors of package tftypes\<close>

text \<open>
  The type declarations of \<^verbatim>\<open>tftypes\<close>, as far as \<^verbatim>\<open>serve.go\<close> uses them. A value has a type
  and is null (\<^verbatim>\<open>NewValue(t, nil)\<close>), unknown (\<^verbatim>\<open>NewValue(t, UnknownValue)\<close>) or known.
  Numbers are kept as integers and the attributes of an object as an association list (in
  one fixed order, so that \<open>Equal\<close>, the method \<^verbatim>\<open>Value.Equal\<close>, is equality of the values of
  the model); the functions of \<^verbatim>\<open>serve.go\<close> inspect neither.
\<close>

datatype tftype =
    StringT | NumberT | BoolT | DynamicPseudoType
  | ListT tftype | SetT tftype | MapT tftype
  | TupleT "tftype list" | ObjectT "(string \<times> tftype) list"

datatype Value = NewValue (Type: tftype) (payload: payload)
and payload =
    NullValue | UnknownValue
  | StringVal string | NumberVal int | BoolVal bool
  | ElemsVal "Value list" | AttrsVal "(string \<times> Value) list"

definition IsNull :: "Value \<Rightarrow> bool" where
  "IsNull v = (payload v = NullValue)"

definition IsKnown :: "Value \<Rightarrow> bool" where
  "IsKnown v = (payload v \<noteq> UnknownValue)"

definition Equal :: "Value \<Rightarrow> Value \<Rightarrow> bool" where
  "Equal v w = (v = w)"

datatype AttributePathStep =
    AttributeName string
  | ElementKeyInt int
  | ElementKeyString string
  | ElementKeyValue Value

text \<open>An \<^verbatim>\<open>*AttributePath\<close> is the list of its \<^verbatim>\<open>Steps()\<close>.\<close>

type_synonym AttributePath = "AttributePathStep list"

text \<open>
  Go errors. \<open>ErrInvalidStep\<close> is \<^verbatim>\<open>tftypes.ErrInvalidStep\<close>, \<open>ErrPathInsideAtomicAttribute\<close> is
  \<^verbatim>\<open>tfsdk.ErrPathInsideAtomicAttribute\<close>, \<open>errorString\<close> is any other plain error and
  \<open>wrapError p e\<close> is \<^verbatim>\<open>fmt.Errorf(p + "%w", e)\<close>. \<^verbatim>\<open>err != tftypes.ErrInvalidStep\<close> is
  inequality of these values; \<open>errors_Is\<close> is \<^verbatim>\<open>errors.Is\<close>, which follows the wrapping.
  The message texts of the two sentinels are declared outside these sources: \<open>Error\<close>
  is left unspecified on them.
\<close>

datatype error =
    ErrInvalidStep
  | ErrPathInsideAtomicAttribute
  | errorString string
  | wrapError string error

primrec Error :: "error \<Rightarrow> string" where
  "Error (errorString s) = s"
| "Error (wrapError p e) = p @ Error e"

primrec errors_Is :: "error \<Rightarrow> error \<Rightarrow> bool" where
  "errors_Is ErrInvalidStep target = (target = ErrInvalidStep)"
| "errors_Is ErrPathInsideAtomicAttribute target = (target = ErrPathInsideAtomicAttribute)"
| "errors_Is (errorString s) target = (target = errorString s)"
| "errors_Is (wrapError p e) target = (target = wrapError p e \<or> errors_Is e target)"

subsection \<open>Diagnostics\<close>

text \<open>
  Modelled from the spec: package \<^verbatim>\<open>diag\<close> (its sources are missing). The spec's data model:
  a diagnostic is \<^emph>\<open>{severity: error|warning, summary, detail, optional path}\<close>; the ledger is
  an ordered sequence of diagnostics.
\<close>

datatype Severity = SeverityError | SeverityWarning

record 'p Diagnostic =
  Severity :: Severity
  Summary :: string
  Detail :: string
  Path :: "'p option"

type_synonym 'p Diagnostics = "'p Diagnostic list"

text \<open>
  Modelled from the spec: \<^verbatim>\<open>diag.NewErrorDiagnostic(summary, detail)\<close>, an error-severity
  diagnostic built from a summary and a detail only.
\<close>

definition NewErrorDiagnostic :: "string \<Rightarrow> string \<Rightarrow> 'p Diagnostic" where
  "NewErrorDiagnostic summary detail =
     \<lparr>Severity = SeverityError, Summary = summary, Detail = detail, Path = None\<rparr>"

text \<open>
  Modelled from the spec: \<^verbatim>\<open>Diagnostics.HasError\<close>, \<^emph>\<open>true iff any entry has severity error\<close>.
\<close>

definition HasError :: "'p Diagnostics \<Rightarrow> bool" where
  "HasError diags = list_ex (\<lambda>d. Severity d = SeverityError) diags"

text \<open>
  Modelled from the spec: \<^verbatim>\<open>Diagnostics.Append\<close> and \<^verbatim>\<open>Diagnostics.AddError\<close>,
  \<^emph>\<open>order-preserving, unbounded, no deduplication\<close>.
\<close>

definition Append :: "'p Diagnostics \<Rightarrow> 'p Diagnostics \<Rightarrow> 'p Diagnostics" where
  "Append diags new = diags @ new"

definition AddError :: "'p Diagnostics \<Rightarrow> string \<Rightarrow> string \<Rightarrow> 'p Diagnostics" where
  "AddError diags summary detail = Append diags [NewErrorDiagnostic summary detail]"

subsection \<open>internal/fwschema/diagnostics.go\<close>

text \<open>
  \<^verbatim>\<open>fmt.Sprintf("%q ...", attributePath)\<close> formats the path with the verb \<^verbatim>\<open>%q\<close>: the
  result of the path's \<^verbatim>\<open>String()\<close> method, quoted by \<^verbatim>\<open>strconv.Quote\<close>. Both are parameters:
  \<open>String\<close> renders a \<^verbatim>\<open>path.Path\<close>, \<open>Quote\<close> is \<^verbatim>\<open>strconv.Quote\<close>.
\<close>

definition AttributeMissingAttributeTypesDiag ::
  "('p \<Rightarrow> string) \<Rightarrow> (string \<Rightarrow> string) \<Rightarrow> 'p \<Rightarrow> 'q Diagnostic" where
  "AttributeMissingAttributeTypesDiag String Quote attributePath =
     NewErrorDiagnostic
       ''Invalid Attribute Implementation''
       (''When validating the schema, an implementation issue was found. '' @
        ''This is always an issue with the provider and should be reported to the provider developers.\<newline>\<newline>'' @
        (Quote (String attributePath) @
           '' is missing the AttributeTypes or CustomType field on an object Attribute. '') @
        ''One of these fields is required to prevent other unexpected errors or panics.'')"

definition AttributeMissingElementTypeDiag ::
  "('p \<Rightarrow> string) \<Rightarrow> (string \<Rightarrow> string) \<Rightarrow> 'p \<Rightarrow> 'q Diagnostic" where
  "AttributeMissingElementTypeDiag String Quote attributePath =
     NewErrorDiagnostic
       ''Invalid Attribute Implementation''
       (''When validating the schema, an implementation issue was found. '' @
        ''This is always an issue with the provider and should be reported to the provider developers.\<newline>\<newline>'' @
        (Quote (String attributePath) @
           '' is missing the CustomType or ElementType field on a collection Attribute. '') @
        ''One of these fields is required to prevent other unexpected errors or panics.'')"

subsection \<open>Path stepping on a string attribute\<close>

text \<open>
  \<^verbatim>\<open>metaschema.StringAttribute\<close> with the fields its test sets; the attribute of the test
  has no custom type, and its type is \<^verbatim>\<open>basetypes.StringType\<close>.
\<close>

record StringAttribute =
  Description :: string
  MarkdownDescription :: string
  Optional :: bool
  Required :: bool

text \<open>The name Go's \<^verbatim>\<open>%T\<close> prints for a step.\<close>

fun step_type_name :: "AttributePathStep \<Rightarrow> string" where
  "step_type_name (AttributeName n) = ''tftypes.AttributeName''"
| "step_type_name (ElementKeyInt i) = ''tftypes.ElementKeyInt''"
| "step_type_name (ElementKeyString k) = ''tftypes.ElementKeyString''"
| "step_type_name (ElementKeyValue v) = ''tftypes.ElementKeyValue''"

text \<open>
  Modelled from the spec: \<^verbatim>\<open>StringAttribute.ApplyTerraform5AttributePathStep\<close> (only its test
  is among the sources). The spec: \<^emph>\<open>primitive attributes accept no step and fail for any
  input\<close>, and \<^emph>\<open>error messages must name the concrete step type and the concrete attribute
  type, verbatim\<close>; the test gives the text. The result is the pair Go returns: the child
  (\<open>None\<close> for \<^verbatim>\<open>nil\<close>) and the error.
\<close>

definition ApplyTerraform5AttributePathStep ::
  "StringAttribute \<Rightarrow> AttributePathStep \<Rightarrow> Value option \<times> error option" where
  "ApplyTerraform5AttributePathStep a step =
     (None,
      Some (errorString
        (''cannot apply AttributePathStep '' @ step_type_name step @ '' to '' @ ''basetypes.StringType'')))"

subsection \<open>markComputedNilsAsUnknown\<close>

text \<open>
  \<^verbatim>\<open>tfsdk.Attribute\<close>: the flags of an attribute of the schema (its other fields are not
  read by \<^verbatim>\<open>serve.go\<close>).
\<close>

record Attribute =
  Attribute_Required :: bool
  Attribute_Optional :: bool
  Computed :: bool
  Sensitive :: bool

text \<open>
  The callback that \<^verbatim>\<open>markComputedNilsAsUnknown(ctx, config, resourceSchema)\<close> returns, applied
  to \<open>path\<close> and \<open>val\<close>. \<open>WalkAttributePath\<close> is \<^verbatim>\<open>tftypes.WalkAttributePath\<close> (its second
  result, the remaining path, is dropped by the caller) and \<open>AttributeAtPath\<close> is
  \<^verbatim>\<open>Schema.AttributeAtPath\<close>. \<open>markFromSchema\<close> is the code from the call of
  \<^verbatim>\<open>AttributeAtPath\<close> on, which both the invalid-step case and the null case fall through to.
\<close>

definition markComputedNilsAsUnknown ::
  "(Value \<Rightarrow> AttributePath \<Rightarrow> error + Value) \<Rightarrow>
   ('s \<Rightarrow> AttributePath \<Rightarrow> error + Attribute) \<Rightarrow>
   Value \<Rightarrow> 's \<Rightarrow> AttributePath \<Rightarrow> Value \<Rightarrow> error + Value" where
  "markComputedNilsAsUnknown WalkAttributePath AttributeAtPath config resourceSchema path val =
     (if length path < 1 then Inr val
      else
        let markFromSchema =
          (case AttributeAtPath resourceSchema path of
             Inl err \<Rightarrow>
               if errors_Is err ErrPathInsideAtomicAttribute then Inr val
               else Inl (wrapError ''couldn't find attribute in resource schema: '' err)
           | Inr attribute \<Rightarrow>
               if \<not> Computed attribute then Inr val
               else Inr (NewValue (Type val) UnknownValue))
        in
          case WalkAttributePath config path of
            Inl err \<Rightarrow> if err \<noteq> ErrInvalidStep then Inl err else markFromSchema
          | Inr configVal \<Rightarrow> if \<not> IsNull configVal then Inr val else markFromSchema)"

subsection \<open>normaliseRequiresReplace\<close>

text \<open>
  The deduplication loop, with the variables of the source: \<open>rs\<close> is the sorted slice,
  \<open>ret\<close> the result slice (as long as \<open>rs\<close>), \<open>j\<close> the number of its entries filled so far
  and \<open>i\<close> the index of the loop. The loop ends when \<open>i\<close> reaches the length of \<open>rs\<close>, and
  the function returns \<^verbatim>\<open>ret[:j]\<close>.
\<close>

function dedup_from :: "('p \<Rightarrow> 'p \<Rightarrow> bool) \<Rightarrow> 'p list \<Rightarrow> 'p list \<Rightarrow> nat \<Rightarrow> nat \<Rightarrow> 'p list" where
  "dedup_from PathEqual rs ret j i =
     (if i < length rs then
        (if PathEqual (rs ! i) (ret ! (j - 1)) then dedup_from PathEqual rs ret j (i + 1)
         else dedup_from PathEqual rs (ret[j := rs ! i]) (j + 1) (i + 1))
      else take j ret)"
  by pat_completeness auto
termination
  by (relation "measure (\<lambda>(PathEqual, rs, ret, j, i). length rs - i)") auto

declare dedup_from.simps [simp del]

text \<open>
  \<open>String\<close> and \<open>PathEqual\<close> are the methods \<^verbatim>\<open>String\<close> and \<^verbatim>\<open>Equal\<close> of
  \<^verbatim>\<open>*tftypes.AttributePath\<close>, \<open>nil\<close> is the nil pointer that \<^verbatim>\<open>make\<close> fills the result slice
  with, and \<open>sort_Slice lt rs\<close> is the slice \<open>rs\<close> after \<^verbatim>\<open>sort.Slice(rs, lt)\<close>.
\<close>

definition normaliseRequiresReplace ::
  "'p \<Rightarrow> ('p \<Rightarrow> string) \<Rightarrow> ('p \<Rightarrow> 'p \<Rightarrow> bool) \<Rightarrow> (('p \<Rightarrow> 'p \<Rightarrow> bool) \<Rightarrow> 'p list \<Rightarrow> 'p list) \<Rightarrow>
   'p list \<Rightarrow> 'p list" where
  "normaliseRequiresReplace nil String PathEqual sort_Slice rs0 =
     (if length rs0 < 2 then rs0
      else
        let rs = sort_Slice (\<lambda>a b. String a < String b) rs0;
            ret = replicate (length rs) nil;
            ret = ret[0 := rs ! 0]
        in dedup_from PathEqual rs ret 1 1)"

text \<open>
  The loop as a recursion over lists, for the proofs: \<open>ret\<close> is the filled part
  \<^verbatim>\<open>ret[:j]\<close> of the result slice, and the list argument is the part \<^verbatim>\<open>rs[i:]\<close> of the sorted
  slice that the loop has not visited yet.
\<close>

fun dedup_loop :: "('p \<Rightarrow> 'p \<Rightarrow> bool) \<Rightarrow> 'p list \<Rightarrow> 'p list \<Rightarrow> 'p list" where
  "dedup_loop PathEqual [] ret = ret"
| "dedup_loop PathEqual (r # rs) ret =
     (if PathEqual r (last ret) then dedup_loop PathEqual rs ret
      else dedup_loop PathEqual rs (ret @ [r]))"

text \<open>
  What \<^verbatim>\<open>sort.Slice\<close> promises for this call: the slice afterwards is a permutation of
  the slice before (it is sorted in place, and so is as long as before), and no entry is
  less than an earlier one. The sort is not stable.
\<close>

definition sort_Slice_sorts ::
  "(('p \<Rightarrow> 'p \<Rightarrow> bool) \<Rightarrow> 'p list \<Rightarrow> 'p list) \<Rightarrow> ('p \<Rightarrow> 'p \<Rightarrow> bool) \<Rightarrow> 'p list \<Rightarrow> bool" where
  "sort_Slice_sorts sort_Slice lt rs =
     (mset (sort_Slice lt rs) = mset rs \<and>
      sorted_wrt (\<lambda>a b. \<not> lt b a) (sort_Slice lt rs))"

text \<open>
  The spec's deduplication, in its words: \<^emph>\<open>keeping the first occurrence in sorted order
  and dropping subsequent equal entries\<close>.
\<close>

fun keep_first :: "('p \<Rightarrow> 'p \<Rightarrow> bool) \<Rightarrow> 'p list \<Rightarrow> 'p list" where
  "keep_first eq [] = []"
| "keep_first eq (x # xs) = x # keep_first eq (filter (\<lambda>y. \<not> eq y x) xs)"

subsection \<open>planResourceChange\<close>

text \<open>
  \<^verbatim>\<open>tfprotov6.DynamicValue\<close>, the wire form of a value, and the request. The three values of a
  request are taken to be non-nil pointers; \<^verbatim>\<open>ProviderMeta\<close> may be nil.
\<close>

record DynamicValue =
  MsgPack :: string
  JSON :: string

record PlanResourceChangeRequest =
  TypeName :: string
  PriorState :: DynamicValue
  ProposedNewState :: DynamicValue
  Config :: DynamicValue
  PriorPrivate :: string
  ProviderMeta :: "DynamicValue option"

text \<open>
  \<^verbatim>\<open>tfsdk.Config\<close>, \<^verbatim>\<open>tfsdk.State\<close> and \<^verbatim>\<open>tfsdk.Plan\<close> are each a schema and a raw value.
\<close>

record 's tfsdk_data =
  Schema :: 's
  Raw :: Value

text \<open>
  The responses. \<open>planResourceChangeResponse\<close> is the struct of that name;
  \<open>ModifyPlanResponse\<close> is both \<^verbatim>\<open>ModifySchemaPlanResponse\<close> and
  \<^verbatim>\<open>tfsdk.ModifyResourcePlanResponse\<close> (the same three fields), and \<open>ModifyPlanRequest\<close> is both
  \<^verbatim>\<open>ModifySchemaPlanRequest\<close> and \<^verbatim>\<open>tfsdk.ModifyResourcePlanRequest\<close>. The fields
  \<^verbatim>\<open>RequiresReplace\<close> and \<^verbatim>\<open>Diagnostics\<close>, which the responses share, are declared once. A
  \<^verbatim>\<open>ProviderMeta\<close> left at its zero value is \<open>None\<close>.
\<close>

record response_core =
  RequiresReplace :: "AttributePath list"
  Diagnostics :: "AttributePath Diagnostics"

record planResourceChangeResponse = response_core +
  PlannedState :: "DynamicValue option"
  PlannedPrivate :: string

record 's ModifyPlanResponse = response_core +
  Plan :: "'s tfsdk_data"

record 's ModifyPlanRequest =
  Config :: "'s tfsdk_data"
  State :: "'s tfsdk_data"
  Plan :: "'s tfsdk_data"
  ProviderMeta :: "'s tfsdk_data option"

text \<open>
  A resource: \<open>ModifyPlan\<close> is \<open>Some\<close> of its method when the resource implements
  \<^verbatim>\<open>tfsdk.ResourceWithModifyPlan\<close>. The method gets the request and the response as
  initialised by the caller, and returns the response as it leaves it.
\<close>

record 's Resource =
  ModifyPlan :: "('s ModifyPlanRequest \<Rightarrow> 's ModifyPlanResponse \<Rightarrow> 's ModifyPlanResponse) option"

record 's ResourceType =
  GetSchema :: "'s \<times> AttributePath Diagnostics"
  NewResource :: "'s Resource \<times> AttributePath Diagnostics"

text \<open>
  What \<^verbatim>\<open>planResourceChange\<close> calls: the methods \<^verbatim>\<open>ResourceType\<close> and \<^verbatim>\<open>ProviderMetaSchema\<close>
  of \<^verbatim>\<open>s.FrameworkServer\<close>, the function \<^verbatim>\<open>SchemaModifyPlan\<close> (which runs the attributes' plan
  modifiers), the methods \<^verbatim>\<open>TerraformType\<close> and \<^verbatim>\<open>AttributeAtPath\<close> of a schema \<open>'s\<close>, and the
  functions of \<^verbatim>\<open>tfprotov6\<close>, \<^verbatim>\<open>tftypes\<close> and \<^verbatim>\<open>sort\<close>.
\<close>

record 's Server =
  ResourceType :: "string \<Rightarrow> 's ResourceType \<times> AttributePath Diagnostics"
  ProviderMetaSchema :: "'s option \<times> AttributePath Diagnostics"
  SchemaModifyPlan :: "'s \<Rightarrow> 's ModifyPlanRequest \<Rightarrow> 's ModifyPlanResponse \<Rightarrow> 's ModifyPlanResponse"
  Schema_TerraformType :: "'s \<Rightarrow> tftype"
  Schema_AttributeAtPath :: "'s \<Rightarrow> AttributePath \<Rightarrow> error + Attribute"
  DynamicValue_Unmarshal :: "DynamicValue \<Rightarrow> tftype \<Rightarrow> error + Value"
  NewDynamicValue :: "tftype \<Rightarrow> Value \<Rightarrow> error + DynamicValue"
  tftypes_WalkAttributePath :: "Value \<Rightarrow> AttributePath \<Rightarrow> error + Value"
  tftypes_Transform :: "Value \<Rightarrow> (AttributePath \<Rightarrow> Value \<Rightarrow> error + Value) \<Rightarrow> error + Value"
  AttributePath_String :: "AttributePath \<Rightarrow> string"
  AttributePath_Equal :: "AttributePath \<Rightarrow> AttributePath \<Rightarrow> bool"
  go_sort_Slice :: "(AttributePath \<Rightarrow> AttributePath \<Rightarrow> bool) \<Rightarrow> AttributePath list \<Rightarrow> AttributePath list"

text \<open>
  The function is one body with early returns. It is split here at its comment blocks;
  a part returns \<open>Inl resp\<close> when the function returns there with the response \<open>resp\<close>, and
  \<open>Inr\<close> of the local variables it leaves when execution goes on.

  Lines 298 to 354: the resource type, its schema, the three values of the request and the
  resource.
\<close>

definition planResourceChange_inputs ::
  "'s Server \<Rightarrow> PlanResourceChangeRequest \<Rightarrow>
   planResourceChangeResponse + ('s \<times> 's Resource \<times> Value \<times> Value \<times> Value \<times> planResourceChangeResponse)" where
  "planResourceChange_inputs s req =
     (let resp = \<lparr>RequiresReplace = [], Diagnostics = [], PlannedState = None, PlannedPrivate = []\<rparr>;
          (resourceType, diags) = ResourceType s (TypeName req);
          resp = resp\<lparr>Diagnostics := Append (Diagnostics resp) diags\<rparr>
      in
      if HasError (Diagnostics resp) then Inl resp
      else
        let (resourceSchema, diags) = GetSchema resourceType;
            resp = resp\<lparr>Diagnostics := Append (Diagnostics resp) diags\<rparr>
        in
        if HasError (Diagnostics resp) then Inl resp
        else
          case DynamicValue_Unmarshal s (PlanResourceChangeRequest.Config req) (Schema_TerraformType s resourceSchema) of
            Inl err \<Rightarrow>
              Inl (resp\<lparr>Diagnostics := AddError (Diagnostics resp)
                ''Error parsing configuration''
                (''An unexpected error was encountered trying to parse the configuration. This is always an error in the provider. Please report the following to the provider developer:\<newline>\<newline>'' @ Error err)\<rparr>)
          | Inr config \<Rightarrow>
          case DynamicValue_Unmarshal s (ProposedNewState req) (Schema_TerraformType s resourceSchema) of
            Inl err \<Rightarrow>
              Inl (resp\<lparr>Diagnostics := AddError (Diagnostics resp)
                ''Error parsing plan''
                (''There was an unexpected error parsing the plan. This is always a problem with the provider. Please report the following to the provider developer:\<newline>\<newline>'' @ Error err)\<rparr>)
          | Inr plan \<Rightarrow>
          case DynamicValue_Unmarshal s (PriorState req) (Schema_TerraformType s resourceSchema) of
            Inl err \<Rightarrow>
              Inl (resp\<lparr>Diagnostics := AddError (Diagnostics resp)
                ''Error parsing prior state''
                (''An unexpected error was encountered trying to parse the prior state. This is always an error in the provider. Please report the following to the provider developer:\<newline>\<newline>'' @ Error err)\<rparr>)
          | Inr state \<Rightarrow>
              let resp = resp\<lparr>PlannedState := Some (ProposedNewState req)\<rparr>;
                  (resource, diags) = NewResource resourceType;
                  resp = resp\<lparr>Diagnostics := Append (Diagnostics resp) diags\<rparr>
              in
              if HasError (Diagnostics resp) then Inl resp
              else Inr (resourceSchema, resource, config, plan, state, resp))"

text \<open>
  Lines 397 to 420: the pass that marks computed values that are null in the config as
  unknown. (Lines 356 to 395 are comments only: the two passes they describe are not in
  the code.)
\<close>

definition planResourceChange_markUnknown ::
  "'s Server \<Rightarrow> 's \<Rightarrow> Value \<Rightarrow> Value \<Rightarrow> Value \<Rightarrow> planResourceChangeResponse \<Rightarrow>
   planResourceChangeResponse + Value" where
  "planResourceChange_markUnknown s resourceSchema config state plan resp =
     (if \<not> IsNull plan \<and> \<not> Equal plan state then
        case tftypes_Transform s plan
               (markComputedNilsAsUnknown (tftypes_WalkAttributePath s) (Schema_AttributeAtPath s)
                  config resourceSchema) of
          Inl err \<Rightarrow>
            Inl (resp\<lparr>Diagnostics := AddError (Diagnostics resp)
              ''Error modifying plan''
              (''There was an unexpected error updating the plan. This is always a problem with the provider. Please report the following to the provider developer:\<newline>\<newline>'' @ Error err)\<rparr>)
        | Inr modifiedPlan \<Rightarrow> Inr modifiedPlan
      else Inr plan)"

text \<open>
  Lines 443 to 468, and again lines 513 to 538: the provider meta schema and the
  \<^verbatim>\<open>ProviderMeta\<close> field of the request that a plan modifier gets.
\<close>

definition planResourceChange_providerMeta ::
  "'s Server \<Rightarrow> PlanResourceChangeRequest \<Rightarrow> planResourceChangeResponse \<Rightarrow>
   planResourceChangeResponse + (planResourceChangeResponse \<times> 's tfsdk_data option)" where
  "planResourceChange_providerMeta s req resp0 =
     (let (providerMetaSchema, diags) = ProviderMetaSchema s;
          resp = resp0\<lparr>Diagnostics := Append (Diagnostics resp0) diags\<rparr>
      in
      if HasError (Diagnostics resp) then Inl resp
      else
        case providerMetaSchema of
          None \<Rightarrow> Inr (resp, None)
        | Some pms \<Rightarrow>
            (case PlanResourceChangeRequest.ProviderMeta req of
               None \<Rightarrow>
                 Inr (resp, Some \<lparr>Schema = pms, Raw = NewValue (Schema_TerraformType s pms) NullValue\<rparr>)
             | Some pm \<Rightarrow>
                 (case DynamicValue_Unmarshal s pm (Schema_TerraformType s pms) of
                    Inl err \<Rightarrow>
                      Inl (resp\<lparr>Diagnostics := AddError (Diagnostics resp)
                        ''Error parsing provider_meta''
                        (''There was an error parsing the provider_meta block. Please report this to the provider developer:\<newline>\<newline>'' @ Error err)\<rparr>)
                  | Inr pmValue \<Rightarrow> Inr (resp, Some \<lparr>Schema = pms, Raw = pmValue\<rparr>))))"

text \<open>Lines 422 to 485: the attributes' plan modifiers, run when the plan is not null.\<close>

definition planResourceChange_attributePlanModifiers ::
  "'s Server \<Rightarrow> PlanResourceChangeRequest \<Rightarrow> 's \<Rightarrow> Value \<Rightarrow> Value \<Rightarrow> Value \<Rightarrow>
   planResourceChangeResponse \<Rightarrow> planResourceChangeResponse + (Value \<times> planResourceChangeResponse)" where
  "planResourceChange_attributePlanModifiers s req resourceSchema config state plan resp0 =
     (if \<not> IsNull plan then
        case planResourceChange_providerMeta s req resp0 of
          Inl resp \<Rightarrow> Inl resp
        | Inr (resp, providerMeta) \<Rightarrow>
            let modifySchemaPlanReq =
                  \<lparr>Config = \<lparr>Schema = resourceSchema, Raw = config\<rparr>,
                   State = \<lparr>Schema = resourceSchema, Raw = state\<rparr>,
                   Plan = \<lparr>Schema = resourceSchema, Raw = plan\<rparr>,
                   ProviderMeta = providerMeta\<rparr>;
                modifySchemaPlanResp =
                  SchemaModifyPlan s resourceSchema modifySchemaPlanReq
                    \<lparr>RequiresReplace = [], Diagnostics = Diagnostics resp,
                     ModifyPlanResponse.Plan = \<lparr>Schema = resourceSchema, Raw = plan\<rparr>\<rparr>;
                resp = resp\<lparr>RequiresReplace := RequiresReplace resp @ RequiresReplace modifySchemaPlanResp\<rparr>;
                plan = Raw (ModifyPlanResponse.Plan modifySchemaPlanResp);
                resp = resp\<lparr>Diagnostics := Diagnostics modifySchemaPlanResp\<rparr>
            in
            if HasError (Diagnostics resp) then Inl resp else Inr (plan, resp)
      else Inr (plan, resp0))"

text \<open>
  Lines 487 to 553: the resource's \<^verbatim>\<open>ModifyPlan\<close>, run whether the plan is null or not. The
  third component left is \<^verbatim>\<open>modifyPlanResp\<close>, \<open>None\<close> while it is the zero value.
\<close>

definition planResourceChange_modifyPlan ::
  "'s Server \<Rightarrow> PlanResourceChangeRequest \<Rightarrow> 's \<Rightarrow> 's Resource \<Rightarrow> Value \<Rightarrow> Value \<Rightarrow> Value \<Rightarrow>
   planResourceChangeResponse \<Rightarrow>
   planResourceChangeResponse + (Value \<times> planResourceChangeResponse \<times> 's ModifyPlanResponse option)" where
  "planResourceChange_modifyPlan s req resourceSchema resource config state plan resp0 =
     (case ModifyPlan resource of
        None \<Rightarrow> Inr (plan, resp0, None)
      | Some resource_ModifyPlan \<Rightarrow>
          (case planResourceChange_providerMeta s req resp0 of
             Inl resp \<Rightarrow> Inl resp
           | Inr (resp, providerMeta) \<Rightarrow>
               let modifyPlanReq =
                     \<lparr>Config = \<lparr>Schema = resourceSchema, Raw = config\<rparr>,
                      State = \<lparr>Schema = resourceSchema, Raw = state\<rparr>,
                      Plan = \<lparr>Schema = resourceSchema, Raw = plan\<rparr>,
                      ProviderMeta = providerMeta\<rparr>;
                   modifyPlanResp =
                     resource_ModifyPlan modifyPlanReq
                       \<lparr>RequiresReplace = [], Diagnostics = Diagnostics resp,
                        ModifyPlanResponse.Plan = \<lparr>Schema = resourceSchema, Raw = plan\<rparr>\<rparr>;
                   resp = resp\<lparr>Diagnostics := Diagnostics modifyPlanResp\<rparr>;
                   plan = Raw (ModifyPlanResponse.Plan modifyPlanResp)
               in Inr (plan, resp, Some modifyPlanResp)))"

text \<open>Lines 555 to 567: the planned state of the response and its replacement paths.\<close>

definition planResourceChange_response ::
  "'s Server \<Rightarrow> Value \<Rightarrow> planResourceChangeResponse \<Rightarrow> 's ModifyPlanResponse option \<Rightarrow>
   planResourceChangeResponse" where
  "planResourceChange_response s plan resp0 modifyPlanResp =
     (case NewDynamicValue s (Type plan) plan of
        Inl err \<Rightarrow>
          resp0\<lparr>Diagnostics := AddError (Diagnostics resp0)
            ''Error converting response''
            (''There was an unexpected error converting the state in the response to a usable type. This is always a problem with the provider. Please report the following to the provider developer:\<newline>\<newline>'' @ Error err)\<rparr>
      | Inr plannedState \<Rightarrow>
          let resp = resp0\<lparr>PlannedState := Some plannedState\<rparr>;
              resp = resp\<lparr>RequiresReplace := RequiresReplace resp @
                       (case modifyPlanResp of None \<Rightarrow> [] | Some r \<Rightarrow> RequiresReplace r)\<rparr>
          in resp\<lparr>RequiresReplace :=
               normaliseRequiresReplace [] (AttributePath_String s) (AttributePath_Equal s) (go_sort_Slice s)
                 (RequiresReplace resp)\<rparr>)"

text \<open>
  The function up to line 553, and the whole function.
\<close>

definition planResourceChange_passes ::
  "'s Server \<Rightarrow> PlanResourceChangeRequest \<Rightarrow>
   planResourceChangeResponse + (Value \<times> planResourceChangeResponse \<times> 's ModifyPlanResponse option)" where
  "planResourceChange_passes s req =
     (case planResourceChange_inputs s req of
        Inl resp \<Rightarrow> Inl resp
      | Inr (resourceSchema, resource, config, plan0, state, resp0) \<Rightarrow>
     (case planResourceChange_markUnknown s resourceSchema config state plan0 resp0 of
        Inl resp \<Rightarrow> Inl resp
      | Inr plan1 \<Rightarrow>
     (case planResourceChange_attributePlanModifiers s req resourceSchema config state plan1 resp0 of
        Inl resp \<Rightarrow> Inl resp
      | Inr (plan2, resp2) \<Rightarrow>
          planResourceChange_modifyPlan s req resourceSchema resource config state plan2 resp2)))"

definition planResourceChange ::
  "'s Server \<Rightarrow> PlanResourceChangeRequest \<Rightarrow> planResourceChangeResponse" where
  "planResourceChange s req =
     (case planResourceChange_passes s req of
        Inl resp \<Rightarrow> resp
      | Inr (plan, resp, modifyPlanResp) \<Rightarrow> planResourceChange_response s plan resp modifyPlanResp)"

subsection \<open>A sample provider\<close>

text \<open>
  Concrete collaborators for the examples below. A schema is a list of named atomic
  attributes, so every path below an attribute is inside an atomic attribute. The wire form
  is a table of named values. \<open>sample_WalkAttributePath\<close> and \<open>sample_Transform\<close> do
  what \<^verbatim>\<open>tftypes.WalkAttributePath\<close> and \<^verbatim>\<open>tftypes.Transform\<close> do on values built from objects and
  lists: a step into a null or unknown value, or to a missing attribute or index, is the
  invalid step, and the callback is applied to the children of a value before the value
  itself. \<open>insertion_sort\<close> stands for \<^verbatim>\<open>sort.Slice\<close>.
\<close>

type_synonym sample_schema = "(string \<times> tftype \<times> Attribute) list"

definition sample_TerraformType :: "sample_schema \<Rightarrow> tftype" where
  "sample_TerraformType sch = ObjectT (map (\<lambda>(n, t, a). (n, t)) sch)"

fun sample_AttributeAtPath :: "sample_schema \<Rightarrow> AttributePath \<Rightarrow> error + Attribute" where
  "sample_AttributeAtPath sch (AttributeName n # rest) =
     (case map_of sch n of
        None \<Rightarrow> Inl (errorString ''attribute not found in schema'')
      | Some (t, a) \<Rightarrow> if rest = [] then Inr a else Inl ErrPathInsideAtomicAttribute)"
| "sample_AttributeAtPath sch path = Inl (errorString ''path does not start with an attribute name'')"

definition sample_step :: "Value \<Rightarrow> AttributePathStep \<Rightarrow> error + Value" where
  "sample_step v step =
     (case step of
        AttributeName n \<Rightarrow>
          (case payload v of
             AttrsVal kvs \<Rightarrow> (case map_of kvs n of None \<Rightarrow> Inl ErrInvalidStep | Some w \<Rightarrow> Inr w)
           | _ \<Rightarrow> Inl ErrInvalidStep)
      | ElementKeyInt i \<Rightarrow>
          (case payload v of
             ElemsVal vs \<Rightarrow> if 0 \<le> i \<and> nat i < length vs then Inr (vs ! nat i) else Inl ErrInvalidStep
           | _ \<Rightarrow> Inl ErrInvalidStep)
      | _ \<Rightarrow> Inl ErrInvalidStep)"

fun sample_WalkAttributePath :: "Value \<Rightarrow> AttributePath \<Rightarrow> error + Value" where
  "sample_WalkAttributePath v [] = Inr v"
| "sample_WalkAttributePath v (step # rest) =
     (case sample_step v step of
        Inl err \<Rightarrow> Inl err
      | Inr next \<Rightarrow> sample_WalkAttributePath next rest)"

fun sample_transform :: "(AttributePath \<Rightarrow> Value \<Rightarrow> error + Value) \<Rightarrow> AttributePath \<Rightarrow> Value \<Rightarrow> error + Value"
and sample_transform_attrs ::
  "(AttributePath \<Rightarrow> Value \<Rightarrow> error + Value) \<Rightarrow> AttributePath \<Rightarrow> (string \<times> Value) list \<Rightarrow> error + (string \<times> Value) list"
and sample_transform_elems ::
  "(AttributePath \<Rightarrow> Value \<Rightarrow> error + Value) \<Rightarrow> AttributePath \<Rightarrow> int \<Rightarrow> Value list \<Rightarrow> error + Value list"
where
  "sample_transform cb path (NewValue t (AttrsVal kvs)) =
     (case sample_transform_attrs cb path kvs of
        Inl err \<Rightarrow> Inl err
      | Inr kvs' \<Rightarrow> cb path (NewValue t (AttrsVal kvs')))"
| "sample_transform cb path (NewValue t (ElemsVal vs)) =
     (case sample_transform_elems cb path 0 vs of
        Inl err \<Rightarrow> Inl err
      | Inr vs' \<Rightarrow> cb path (NewValue t (ElemsVal vs')))"
| "sample_transform cb path (NewValue t NullValue) = cb path (NewValue t NullValue)"
| "sample_transform cb path (NewValue t UnknownValue) = cb path (NewValue t UnknownValue)"
| "sample_transform cb path (NewValue t (StringVal x)) = cb path (NewValue t (StringVal x))"
| "sample_transform cb path (NewValue t (NumberVal x)) = cb path (NewValue t (NumberVal x))"
| "sample_transform cb path (NewValue t (BoolVal x)) = cb path (NewValue t (BoolVal x))"
| "sample_transform_attrs cb path [] = Inr []"
| "sample_transform_attrs cb path ((k, v) # kvs) =
     (case sample_transform cb (path @ [AttributeName k]) v of
        Inl err \<Rightarrow> Inl err
      | Inr v' \<Rightarrow>
          (case sample_transform_attrs cb path kvs of
             Inl err \<Rightarrow> Inl err
           | Inr kvs' \<Rightarrow> Inr ((k, v') # kvs')))"
| "sample_transform_elems cb path i [] = Inr []"
| "sample_transform_elems cb path i (v # vs) =
     (case sample_transform cb (path @ [ElementKeyInt i]) v of
        Inl err \<Rightarrow> Inl err
      | Inr v' \<Rightarrow>
          (case sample_transform_elems cb path (i + 1) vs of
             Inl err \<Rightarrow> Inl err
           | Inr vs' \<Rightarrow> Inr (v' # vs')))"

definition sample_Transform :: "Value \<Rightarrow> (AttributePath \<Rightarrow> Value \<Rightarrow> error + Value) \<Rightarrow> error + Value" where
  "sample_Transform v cb = sample_transform cb [] v"

definition sample_Unmarshal :: "(DynamicValue \<times> Value) list \<Rightarrow> DynamicValue \<Rightarrow> tftype \<Rightarrow> error + Value" where
  "sample_Unmarshal wire d t =
     (case map_of wire d of
        None \<Rightarrow> Inl (errorString ''cannot decode value'')
      | Some v \<Rightarrow> if Type v = t then Inr v else Inl (errorString ''value is not of the type asked for''))"

definition sample_NewDynamicValue :: "(DynamicValue \<times> Value) list \<Rightarrow> tftype \<Rightarrow> Value \<Rightarrow> error + DynamicValue" where
  "sample_NewDynamicValue wire t v =
     (case find (\<lambda>(d, w). w = v) wire of
        None \<Rightarrow> Inl (errorString ''cannot encode value'')
      | Some (d, w) \<Rightarrow> Inr d)"

fun sample_step_String :: "AttributePathStep \<Rightarrow> string" where
  "sample_step_String (AttributeName n) = ''AttributeName('' @ n @ '')''"
| "sample_step_String (ElementKeyInt i) = ''ElementKeyInt''"
| "sample_step_String (ElementKeyString k) = ''ElementKeyString('' @ k @ '')''"
| "sample_step_String (ElementKeyValue v) = ''ElementKeyValue''"

definition sample_String :: "AttributePath \<Rightarrow> string" where
  "sample_String path = concat (map sample_step_String path)"

fun insert_sorted :: "('p \<Rightarrow> 'p \<Rightarrow> bool) \<Rightarrow> 'p \<Rightarrow> 'p list \<Rightarrow> 'p list" where
  "insert_sorted lt x [] = [x]"
| "insert_sorted lt x (y # ys) = (if lt x y then x # y # ys else y # insert_sorted lt x ys)"

fun insertion_sort :: "('p \<Rightarrow> 'p \<Rightarrow> bool) \<Rightarrow> 'p list \<Rightarrow> 'p list" where
  "insertion_sort lt [] = []"
| "insertion_sort lt (x # xs) = insert_sorted lt x (insertion_sort lt xs)"

definition sample_Server ::
  "sample_schema \<Rightarrow> (DynamicValue \<times> Value) list \<Rightarrow>
   (sample_schema \<Rightarrow> sample_schema ModifyPlanRequest \<Rightarrow> sample_schema ModifyPlanResponse \<Rightarrow> sample_schema ModifyPlanResponse) \<Rightarrow>
   (sample_schema ModifyPlanRequest \<Rightarrow> sample_schema ModifyPlanResponse \<Rightarrow> sample_schema ModifyPlanResponse) option \<Rightarrow>
   sample_schema Server" where
  "sample_Server sch wire attribute_modifiers resource_ModifyPlan =
     \<lparr>ResourceType = (\<lambda>typeName.
        (\<lparr>GetSchema = (sch, []), NewResource = (\<lparr>ModifyPlan = resource_ModifyPlan\<rparr>, [])\<rparr>, [])),
      ProviderMetaSchema = (None, []),
      SchemaModifyPlan = attribute_modifiers,
      Schema_TerraformType = sample_TerraformType,
      Schema_AttributeAtPath = sample_AttributeAtPath,
      DynamicValue_Unmarshal = sample_Unmarshal wire,
      NewDynamicValue = sample_NewDynamicValue wire,
      tftypes_WalkAttributePath = sample_WalkAttributePath,
      tftypes_Transform = sample_Transform,
      AttributePath_String = sample_String,
      AttributePath_Equal = (=),
      go_sort_Slice = insertion_sort\<rparr>"

text \<open>
  A schema with a computed string \<open>id\<close> and an optional string \<open>name\<close>, objects of its
  type, a wire table, an attribute plan modifier that asks for replacement when the plan
  it is shown holds null at an attribute, and a request that creates a resource (null prior
  state) with \<open>name\<close> set.
\<close>

definition sample_schema :: sample_schema where
  "sample_schema =
     [(''id'', StringT, \<lparr>Attribute_Required = False, Attribute_Optional = False, Computed = True, Sensitive = False\<rparr>),
      (''name'', StringT, \<lparr>Attribute_Required = False, Attribute_Optional = True, Computed = False, Sensitive = False\<rparr>)]"

definition sample_object :: "payload \<Rightarrow> payload \<Rightarrow> Value" where
  "sample_object idv namev =
     NewValue (sample_TerraformType sample_schema)
       (AttrsVal [(''id'', NewValue StringT idv), (''name'', NewValue StringT namev)])"

definition wire :: "string \<Rightarrow> DynamicValue" where
  "wire x = \<lparr>MsgPack = [], JSON = x\<rparr>"

definition sample_wire :: "(DynamicValue \<times> Value) list" where
  "sample_wire =
     [(wire ''proposed'', sample_object NullValue (StringVal ''a'')),
      (wire ''null'', NewValue (sample_TerraformType sample_schema) NullValue),
      (wire ''marked'', sample_object UnknownValue (StringVal ''a'')),
      (wire ''modified'', sample_object (StringVal ''x'') (StringVal ''a''))]"

definition requires_replace_if_null ::
  "string \<Rightarrow> sample_schema \<Rightarrow> sample_schema ModifyPlanRequest \<Rightarrow> sample_schema ModifyPlanResponse \<Rightarrow> sample_schema ModifyPlanResponse" where
  "requires_replace_if_null n sch req resp =
     (case sample_WalkAttributePath (Raw (Plan req)) [AttributeName n] of
        Inl err \<Rightarrow> resp
      | Inr v \<Rightarrow>
          if IsNull v then resp\<lparr>RequiresReplace := RequiresReplace resp @ [[AttributeName n]]\<rparr>
          else resp)"

definition sample_request :: PlanResourceChangeRequest where
  "sample_request =
     \<lparr>TypeName = ''sample'', PriorState = wire ''null'', ProposedNewState = wire ''proposed'',
      Config = wire ''proposed'', PriorPrivate = [], ProviderMeta = None\<rparr>"

text \<open>
  No attribute plan modifiers; a resource whose \<^verbatim>\<open>ModifyPlan\<close> sets \<open>id\<close> in the plan and
  records an error; one that sets \<open>id\<close> to a value the wire table cannot encode; a request
  whose config cannot be decoded; and a request that deletes a resource (null proposed
  state).
\<close>

definition no_attribute_modifiers ::
  "sample_schema \<Rightarrow> sample_schema ModifyPlanRequest \<Rightarrow> sample_schema ModifyPlanResponse \<Rightarrow> sample_schema ModifyPlanResponse" where
  "no_attribute_modifiers sch req resp = resp"

definition failing_ModifyPlan ::
  "sample_schema ModifyPlanRequest \<Rightarrow> sample_schema ModifyPlanResponse \<Rightarrow> sample_schema ModifyPlanResponse" where
  "failing_ModifyPlan req resp =
     resp\<lparr>Diagnostics := AddError (Diagnostics resp) ''Cannot plan'' ''The resource cannot be planned.'',
          ModifyPlanResponse.Plan :=
            \<lparr>Schema = Schema (ModifyPlanResponse.Plan resp),
             Raw = sample_object (StringVal ''x'') (StringVal ''a'')\<rparr>\<rparr>"

definition unencodable_ModifyPlan ::
  "sample_schema ModifyPlanRequest \<Rightarrow> sample_schema ModifyPlanResponse \<Rightarrow> sample_schema ModifyPlanResponse" where
  "unencodable_ModifyPlan req resp =
     resp\<lparr>ModifyPlanResponse.Plan :=
            \<lparr>Schema = Schema (ModifyPlanResponse.Plan resp),
             Raw = sample_object (StringVal ''y'') (StringVal ''a'')\<rparr>\<rparr>"

definition undecodable_request :: PlanResourceChangeRequest where
  "undecodable_request =
     \<lparr>TypeName = ''sample'', PriorState = wire ''null'', ProposedNewState = wire ''proposed'',
      Config = wire ''garbage'', PriorPrivate = [], ProviderMeta = None\<rparr>"

definition delete_request :: PlanResourceChangeRequest where
  "delete_request =
     \<lparr>TypeName = ''sample'', PriorState = wire ''proposed'', ProposedNewState = wire ''null'',
      Config = wire ''null'', PriorPrivate = [], ProviderMeta = None\<rparr>"


section \<open>Properties\<close>

subsection \<open>The deduplication loop and the normal form\<close>

lemma dedup_loop_butlast:
  "ret \<noteq> [] \<Longrightarrow> dedup_loop eq xs ret = butlast ret @ dedup_loop eq xs [last ret]"
proof (induction xs arbitrary: ret)
  case Nil
  then show ?case by simp
next
  case (Cons r rs)
  show ?case
  proof (cases "eq r (last ret)")
    case True
    show ?thesis using True Cons.IH [OF Cons.prems] by simp
  next
    case False
    have a: "dedup_loop eq rs (ret @ [r]) = ret @ dedup_loop eq rs [r]"
      using Cons.IH [of "ret @ [r]"] by simp
    have b: "dedup_loop eq rs [last ret, r] = [last ret] @ dedup_loop eq rs [r]"
      using Cons.IH [of "[last ret, r]"] by simp
    have c: "butlast ret @ [last ret] = ret"
      using Cons.prems by simp
    have "dedup_loop eq (r # rs) ret = ret @ dedup_loop eq rs [r]"
      using False a by simp
    also have "\<dots> = (butlast ret @ [last ret]) @ dedup_loop eq rs [r]"
      by (simp only: c)
    also have "\<dots> = butlast ret @ dedup_loop eq (r # rs) [last ret]"
      using False b by simp
    finally show ?thesis .
  qed
qed

lemma dedup_loop_Cons:
  "dedup_loop eq (r # rs) [x] = (if eq r x then dedup_loop eq rs [x] else x # dedup_loop eq rs [r])"
  using dedup_loop_butlast [of "[x, r]" eq rs] by simp

lemma map_dedup_loop:
  assumes "\<forall>p q. eq p q = (S p = S q)"
  shows "map S (dedup_loop eq xs [x]) = remdups_adj (map S (x # xs))"
proof (induction xs arbitrary: x)
  case Nil
  show ?case by simp
next
  case (Cons r rs)
  show ?case using assms Cons.IH by (simp add: dedup_loop_Cons del: dedup_loop.simps)
qed

lemma set_dedup_loop: "set (dedup_loop eq xs ret) \<subseteq> set ret \<union> set xs"
proof (induction xs arbitrary: ret)
  case Nil
  show ?case by simp
next
  case (Cons r rs)
  have "set (dedup_loop eq rs ret) \<subseteq> set ret \<union> set rs" by (rule Cons.IH)
  moreover have "set (dedup_loop eq rs (ret @ [r])) \<subseteq> set (ret @ [r]) \<union> set rs" by (rule Cons.IH)
  ultimately show ?case by auto
qed

lemma dedup_loop_keep_first:
  fixes S :: "'p \<Rightarrow> string"
  assumes "\<forall>p q. eq p q = (S p = S q)"
  shows "sorted (map S (x # xs)) \<Longrightarrow> dedup_loop eq xs [x] = keep_first eq (x # xs)"
proof (induction xs arbitrary: x)
  case Nil
  show ?case by simp
next
  case (Cons r rs)
  show ?case
  proof (cases "eq r x")
    case True
    have "sorted (map S (x # rs))" using Cons.prems by auto
    then have "dedup_loop eq rs [x] = keep_first eq (x # rs)" by (rule Cons.IH)
    with True show ?thesis by (simp add: dedup_loop_Cons del: dedup_loop.simps)
  next
    case False
    have lt: "S x < S r" using False assms Cons.prems by (auto simp: less_le)
    have "\<forall>y\<in>set rs. S x < S y" using lt Cons.prems by auto
    then have f: "filter (\<lambda>y. \<not> eq y x) rs = rs" using assms by (auto simp: filter_id_conv)
    have "sorted (map S (r # rs))" using Cons.prems by auto
    then have "dedup_loop eq rs [r] = keep_first eq (r # rs)" by (rule Cons.IH)
    with False f show ?thesis by (simp add: dedup_loop_Cons del: dedup_loop.simps)
  qed
qed

lemma dedup_loop_strict:
  fixes S :: "'p \<Rightarrow> string"
  assumes "\<forall>p q. eq p q = (S p = S q)"
  shows "sorted_wrt (<) (map S (x # xs)) \<Longrightarrow> dedup_loop eq xs [x] = x # xs"
proof (induction xs arbitrary: x)
  case Nil
  show ?case by simp
next
  case (Cons r rs)
  have "S x < S r" using Cons.prems by simp
  then have ne: "\<not> eq r x" using assms by auto
  have "sorted_wrt (<) (map S (r # rs))" using Cons.prems by simp
  then have "dedup_loop eq rs [r] = r # rs" by (rule Cons.IH)
  with ne show ?case by (simp add: dedup_loop_Cons del: dedup_loop.simps)
qed


lemma sort_Slice_sorts_key:
  fixes S :: "'p \<Rightarrow> string"
  assumes "sort_Slice_sorts srt (\<lambda>a b. S a < S b) rs"
  shows "mset (srt (\<lambda>a b. S a < S b) rs) = mset rs"
    and "sorted (map S (srt (\<lambda>a b. S a < S b) rs))"
  using assms by (simp_all add: sort_Slice_sorts_def sorted_map not_less)

lemma strict_sorted_remdups_adj:
  fixes ks :: "string list"
  shows "sorted ks \<Longrightarrow> sorted_wrt (<) (remdups_adj ks)"
proof (induction ks rule: remdups_adj.induct)
  case 1
  show ?case by simp
next
  case (2 x)
  show ?case by simp
next
  case (3 x y xs)
  show ?case
  proof (cases "x = y")
    case True
    with 3 show ?thesis by simp
  next
    case False
    have "\<forall>z\<in>set (y # xs). x < z" using False "3.prems" by auto
    moreover have "sorted_wrt (<) (remdups_adj (y # xs))" using False 3 by simp
    ultimately show ?thesis using False by simp
  qed
qed

lemma dedup_from_loop:
  "1 \<le> j \<Longrightarrow> j \<le> i \<Longrightarrow> i \<le> length rs \<Longrightarrow> length ret = length rs \<Longrightarrow>
   dedup_from eq rs ret j i = dedup_loop eq (drop i rs) (take j ret)"
proof (induction eq rs ret j i rule: dedup_from.induct)
  case (1 eq rs ret j i)
  show ?case
  proof (cases "i < length rs")
    case False
    with "1.prems" show ?thesis by (simp add: dedup_from.simps)
  next
    case True
    have d: "drop i rs = rs ! i # drop (Suc i) rs"
      using True by (simp add: Cons_nth_drop_Suc)
    have jl: "j < length ret" using "1.prems" True by simp
    have "take j ret \<noteq> []" using "1.prems"(1) jl by auto
    then have "last (take j ret) = take j ret ! (length (take j ret) - 1)"
      by (rule last_conv_nth)
    also have "\<dots> = ret ! (j - 1)" using "1.prems"(1) jl by simp
    finally have l: "last (take j ret) = ret ! (j - 1)" .
    show ?thesis
    proof (cases "eq (rs ! i) (ret ! (j - 1))")
      case eq: True
      have "dedup_from eq rs ret j (i + 1) = dedup_loop eq (drop (i + 1) rs) (take j ret)"
        using True eq "1.prems" by (intro "1.IH"(1)) simp_all
      then show ?thesis using True eq d l by (simp add: dedup_from.simps [of eq rs ret j i])
    next
      case ne: False
      have t: "take (j + 1) (ret[j := rs ! i]) = take j ret @ [rs ! i]"
        using jl by (simp add: take_Suc_conv_app_nth)
      have "dedup_from eq rs (ret[j := rs ! i]) (j + 1) (i + 1) =
            dedup_loop eq (drop (i + 1) rs) (take (j + 1) (ret[j := rs ! i]))"
        using True ne "1.prems" by (intro "1.IH"(2)) simp_all
      then show ?thesis using True ne d l t by (simp add: dedup_from.simps [of eq rs ret j i])
    qed
  qed
qed

lemma normaliseRequiresReplace_list:
  assumes "length (sort_Slice (\<lambda>a b. String a < String b) rs) = length rs"
  shows "normaliseRequiresReplace nil String PathEqual sort_Slice rs =
     (if length rs < 2 then rs
      else dedup_loop PathEqual (tl (sort_Slice (\<lambda>a b. String a < String b) rs))
             [hd (sort_Slice (\<lambda>a b. String a < String b) rs)])"
proof (cases "length rs < 2")
  case True
  then show ?thesis by (simp add: normaliseRequiresReplace_def)
next
  case False
  define rs' where "rs' = sort_Slice (\<lambda>a b. String a < String b) rs"
  have len: "1 \<le> length rs'" using assms False by (simp add: rs'_def)
  then have ne: "rs' \<noteq> []" by auto
  have "dedup_from PathEqual rs' ((replicate (length rs') nil)[0 := rs' ! 0]) 1 1 =
        dedup_loop PathEqual (drop 1 rs') (take 1 ((replicate (length rs') nil)[0 := rs' ! 0]))"
    using len by (intro dedup_from_loop) simp_all
  also have "take 1 ((replicate (length rs') nil)[0 := rs' ! 0]) = [hd rs']"
    using ne by (cases rs') (simp_all add: replicate_Suc [symmetric] del: replicate_Suc, simp)
  also have "drop 1 rs' = tl rs'" by (simp add: drop_Suc)
  finally show ?thesis
    using False by (simp add: normaliseRequiresReplace_def rs'_def Let_def)
qed

lemma sort_Slice_sorts_length:
  "sort_Slice_sorts sort_Slice lt rs \<Longrightarrow> length (sort_Slice lt rs) = length rs"
  by (auto simp: sort_Slice_sorts_def dest: mset_eq_length)

lemma normalise_canonical:
  fixes String :: "'p \<Rightarrow> string"
  assumes eq: "\<forall>p q. PathEqual p q = (String p = String q)"
    and srt: "sort_Slice_sorts sort_Slice (\<lambda>a b. String a < String b) rs"
  shows "map String (normaliseRequiresReplace nil String PathEqual sort_Slice rs) =
         remdups_adj (sort (map String rs))"
proof (cases "length rs < 2")
  case True
  then have "rs = [] \<or> (\<exists>x. rs = [x])"
    by (cases rs) (auto simp: length_Suc_conv)
  with True show ?thesis by (auto simp: normaliseRequiresReplace_def)
next
  case False
  define rs' where "rs' = sort_Slice (\<lambda>a b. String a < String b) rs"
  have m: "mset rs' = mset rs" and s: "sorted (map String rs')"
    using sort_Slice_sorts_key [OF srt] by (simp_all add: rs'_def)
  have "rs \<noteq> []" using False by auto
  then have ne: "rs' \<noteq> []" using m by auto
  have "mset (map String rs') = mset (map String rs)" using m by simp
  then have k: "sort (map String rs) = map String rs'"
    using s by (rule properties_for_sort)
  have "normaliseRequiresReplace nil String PathEqual sort_Slice rs = dedup_loop PathEqual (tl rs') [hd rs']"
    using False sort_Slice_sorts_length [OF srt] by (simp add: normaliseRequiresReplace_list rs'_def)
  then have "map String (normaliseRequiresReplace nil String PathEqual sort_Slice rs) =
        remdups_adj (map String (hd rs' # tl rs'))"
    by (simp only: map_dedup_loop [OF eq])
  then show ?thesis using ne k by simp
qed

lemma normalise_keep_first:
  fixes String :: "'p \<Rightarrow> string"
  assumes eq: "\<forall>p q. PathEqual p q = (String p = String q)"
    and srt: "sort_Slice_sorts sort_Slice (\<lambda>a b. String a < String b) rs"
    and len: "2 \<le> length rs"
  shows "normaliseRequiresReplace nil String PathEqual sort_Slice rs =
         keep_first PathEqual (sort_Slice (\<lambda>a b. String a < String b) rs)"
proof -
  define rs' where "rs' = sort_Slice (\<lambda>a b. String a < String b) rs"
  have m: "mset rs' = mset rs" and s: "sorted (map String rs')"
    using sort_Slice_sorts_key [OF srt] by (simp_all add: rs'_def)
  have "rs \<noteq> []" using len by auto
  then have ne: "rs' \<noteq> []" using m by auto
  then have c: "hd rs' # tl rs' = rs'" by simp
  have "sorted (map String (hd rs' # tl rs'))" using s c by simp
  then have "dedup_loop PathEqual (tl rs') [hd rs'] = keep_first PathEqual (hd rs' # tl rs')"
    by (rule dedup_loop_keep_first [OF eq])
  then show ?thesis using len c sort_Slice_sorts_length [OF srt]
    by (simp add: normaliseRequiresReplace_list rs'_def [symmetric])
qed

lemma set_normalise:
  fixes String :: "'p \<Rightarrow> string"
  assumes srt: "sort_Slice_sorts sort_Slice (\<lambda>a b. String a < String b) rs"
  shows "set (normaliseRequiresReplace nil String PathEqual sort_Slice rs) \<subseteq> set rs"
proof (cases "length rs < 2")
  case True
  then show ?thesis by (simp add: normaliseRequiresReplace_def)
next
  case False
  define rs' where "rs' = sort_Slice (\<lambda>a b. String a < String b) rs"
  have m: "mset rs' = mset rs"
    using sort_Slice_sorts_key(1) [OF srt] by (simp add: rs'_def)
  have "rs \<noteq> []" using False by auto
  then have ne: "rs' \<noteq> []" using m by auto
  have "set (dedup_loop PathEqual (tl rs') [hd rs']) \<subseteq> set [hd rs'] \<union> set (tl rs')"
    by (rule set_dedup_loop)
  also have "\<dots> = set (hd rs' # tl rs')" by simp
  also have "\<dots> = set rs'" using ne by simp
  also have "\<dots> = set rs" using m by (rule mset_eq_setD)
  finally show ?thesis using False sort_Slice_sorts_length [OF srt]
    by (simp add: normaliseRequiresReplace_list rs'_def [symmetric])
qed

lemma strict_sorted_normalise:
  fixes String :: "'p \<Rightarrow> string"
  assumes eq: "\<forall>p q. PathEqual p q = (String p = String q)"
    and srt: "sort_Slice_sorts sort_Slice (\<lambda>a b. String a < String b) rs"
  shows "sorted_wrt (<) (map String (normaliseRequiresReplace nil String PathEqual sort_Slice rs))"
  by (simp add: normalise_canonical [OF eq srt] strict_sorted_remdups_adj)

lemma image_set_normalise:
  fixes String :: "'p \<Rightarrow> string"
  assumes eq: "\<forall>p q. PathEqual p q = (String p = String q)"
    and srt: "sort_Slice_sorts sort_Slice (\<lambda>a b. String a < String b) rs"
  shows "String ` set (normaliseRequiresReplace nil String PathEqual sort_Slice rs) = String ` set rs"
proof -
  have "set (map String (normaliseRequiresReplace nil String PathEqual sort_Slice rs)) = set (map String rs)"
    by (simp only: normalise_canonical [OF eq srt] remdups_adj_set set_sort)
  then show ?thesis by simp
qed

lemma sort_mset_cong:
  fixes xs ys :: "string list"
  shows "mset xs = mset ys \<Longrightarrow> sort xs = sort ys"
  by (rule properties_for_sort) simp_all

lemma normalise_example:
  fixes String :: "'p \<Rightarrow> string"
  assumes eq: "\<forall>p q. PathEqual p q = (String p = String q)"
    and srt: "sort_Slice_sorts sort_Slice (\<lambda>a b. String a < String b) [b, a, a, c]"
    and ab: "String a < String b" and bc: "String b < String c"
  shows "normaliseRequiresReplace nil String PathEqual sort_Slice [b, a, a, c] = [a, b, c]"
proof -
  let ?out = "normaliseRequiresReplace nil String PathEqual sort_Slice [b, a, a, c]"
  have ac: "String a < String c" using ab bc by (rule less_trans)
  have ne: "String a \<noteq> String b" "String b \<noteq> String c" using ab bc by auto
  have "sort (map String [b, a, a, c]) = [String a, String a, String b, String c]"
    using ab bc ac by auto
  then have "remdups_adj (sort (map String [b, a, a, c])) = [String a, String b, String c]"
    using ne by simp
  then have "map String ?out = [String a, String b, String c]"
    by (simp only: normalise_canonical [OF eq srt])
  then have m: "map String ?out = map String [a, b, c]" by simp
  have sub: "set ?out \<subseteq> {a, b, c}"
    using set_normalise [OF srt, where PathEqual = PathEqual and nil = nil] by auto
  have "inj_on String {a, b, c}" using ab bc ac by (auto simp: inj_on_def)
  then have "inj_on String (set ?out \<union> set [a, b, c])"
    by (rule inj_on_subset) (use sub in auto)
  then show ?thesis using m by (simp only: inj_on_map_eq_map)
qed

text \<open>
  Claim C2. Let path equality be equality of the string renderings, and let \<^verbatim>\<open>sort.Slice\<close>
  sort the list it is called on. Then the result of \<open>normaliseRequiresReplace\<close> is strictly
  ascending in the string renderings (sorted, and no two entries equal); it holds the
  paths of the input and no others; for an input of two or more paths it is the sorted
  list with the first entry of each run of equal paths kept and the later ones dropped; an
  input of fewer than two paths is returned as it is; and the paths \<open>b, a, a, c\<close> with
  \<open>a < b < c\<close> give \<open>[a, b, c]\<close>.
\<close>

theorem normaliseRequiresReplace_sorted_deduplicated:
  fixes String :: "'p \<Rightarrow> string"
  assumes eq: "\<forall>p q. PathEqual p q = (String p = String q)"
    and srt: "sort_Slice_sorts sort_Slice (\<lambda>a b. String a < String b) rs"
  shows "sorted_wrt (<) (map String (normaliseRequiresReplace nil String PathEqual sort_Slice rs)) \<and>
         String ` set (normaliseRequiresReplace nil String PathEqual sort_Slice rs) = String ` set rs \<and>
         set (normaliseRequiresReplace nil String PathEqual sort_Slice rs) \<subseteq> set rs \<and>
         (2 \<le> length rs \<longrightarrow>
            normaliseRequiresReplace nil String PathEqual sort_Slice rs =
            keep_first PathEqual (sort_Slice (\<lambda>a b. String a < String b) rs)) \<and>
         (length rs < 2 \<longrightarrow> normaliseRequiresReplace nil String PathEqual sort_Slice rs = rs) \<and>
         (rs = [b, a, a, c] \<and> String a < String b \<and> String b < String c \<longrightarrow>
            normaliseRequiresReplace nil String PathEqual sort_Slice rs = [a, b, c])"
proof (intro conjI impI)
  show "sorted_wrt (<) (map String (normaliseRequiresReplace nil String PathEqual sort_Slice rs))"
    by (rule strict_sorted_normalise [OF eq srt])
  show "String ` set (normaliseRequiresReplace nil String PathEqual sort_Slice rs) = String ` set rs"
    by (rule image_set_normalise [OF eq srt])
  show "set (normaliseRequiresReplace nil String PathEqual sort_Slice rs) \<subseteq> set rs"
    by (rule set_normalise [OF srt])
  show "normaliseRequiresReplace nil String PathEqual sort_Slice rs =
        keep_first PathEqual (sort_Slice (\<lambda>a b. String a < String b) rs)" if "2 \<le> length rs"
    using eq srt that by (rule normalise_keep_first)
  show "normaliseRequiresReplace nil String PathEqual sort_Slice rs = rs" if "length rs < 2"
    using that by (simp add: normaliseRequiresReplace_def)
  show "normaliseRequiresReplace nil String PathEqual sort_Slice rs = [a, b, c]"
    if "rs = [b, a, a, c] \<and> String a < String b \<and> String b < String c"
    using that eq srt
      normalise_example [where PathEqual = PathEqual and String = String and sort_Slice = sort_Slice
        and b = b and a = a and c = c and nil = nil]
    by simp
qed

text \<open>The hypotheses of C2 at the paths \<open>b, a, a, c\<close>, sorted by insertion.\<close>

theorem normaliseRequiresReplace_sorted_deduplicated_witness:
  "sort_Slice_sorts insertion_sort (\<lambda>a b. a < b) [''b'', ''a'', ''a'', ''c''] \<and>
   normaliseRequiresReplace [] (\<lambda>p. p) (=) insertion_sort [''b'', ''a'', ''a'', ''c''] = [''a'', ''b'', ''c''] \<and>
   sorted_wrt (<) (map (\<lambda>p. p) (normaliseRequiresReplace [] (\<lambda>p. p) (=) insertion_sort [''b'', ''a'', ''a'', ''c'']))"
proof -
  have e: "\<forall>p q::string. (p = q) = ((\<lambda>p. p) p = (\<lambda>p. p) q)" by simp
  have s: "sort_Slice_sorts insertion_sort (\<lambda>a b. (\<lambda>p. p) a < (\<lambda>p. p) b) [''b'', ''a'', ''a'', ''c'']"
    by (simp add: sort_Slice_sorts_def)
  show ?thesis
    using s normaliseRequiresReplace_sorted_deduplicated
            [OF e s, where b = "''b''" and a = "''a''" and c = "''c''" and nil = "[]"]
    by simp
qed

lemma sort_Slice_same_strict:
  fixes String :: "'p \<Rightarrow> string"
  assumes srt: "sort_Slice_sorts sort_Slice (\<lambda>a b. String a < String b) out"
    and strict: "sorted_wrt (<) (map String out)"
  shows "sort_Slice (\<lambda>a b. String a < String b) out = out"
proof -
  define rs' where "rs' = sort_Slice (\<lambda>a b. String a < String b) out"
  have m: "mset rs' = mset out" and s: "sorted (map String rs')"
    using sort_Slice_sorts_key [OF srt] by (simp_all add: rs'_def)
  have so: "sorted (map String out)" and d: "distinct (map String out)"
    using strict by (simp_all add: strict_sorted_iff)
  have st: "set rs' = set out" using m by (rule mset_eq_setD)
  have "mset (map String rs') = mset (map String out)" using m by simp
  then have "distinct (map String rs') = distinct (map String out)"
    by (rule mset_eq_imp_distinct_iff)
  then have d': "distinct (map String rs')" using d by blast
  have "inj_on String (set out)" using d by (simp add: distinct_map)
  then have i: "inj_on String (set rs' \<union> set out)" using st by simp
  have "rs' = out" using i s d' so d st by (rule map_sorted_distinct_set_unique)
  then show ?thesis by (simp add: rs'_def)
qed

lemma normalise_strict_id:
  fixes String :: "'p \<Rightarrow> string"
  assumes eq: "\<forall>p q. PathEqual p q = (String p = String q)"
    and srt: "sort_Slice_sorts sort_Slice (\<lambda>a b. String a < String b) out"
    and strict: "sorted_wrt (<) (map String out)"
  shows "normaliseRequiresReplace nil String PathEqual sort_Slice out = out"
proof (cases "length out < 2")
  case True
  then show ?thesis by (simp add: normaliseRequiresReplace_def)
next
  case False
  then have ne: "out \<noteq> []" by auto
  then have c: "hd out # tl out = out" by simp
  have "sorted_wrt (<) (map String (hd out # tl out))" using strict c by simp
  then have "dedup_loop PathEqual (tl out) [hd out] = hd out # tl out"
    by (rule dedup_loop_strict [OF eq])
  then show ?thesis
    using False c
    by (simp add: normaliseRequiresReplace_list sort_Slice_same_strict [OF srt strict])
qed

lemma normalise_permutation:
  fixes String :: "'p \<Rightarrow> string"
  assumes eq: "\<forall>p q. PathEqual p q = (String p = String q)"
    and srt: "sort_Slice_sorts sort_Slice (\<lambda>a b. String a < String b) rs"
    and srt': "sort_Slice_sorts sort_Slice (\<lambda>a b. String a < String b) rs'"
    and perm: "mset rs' = mset rs"
  shows "map String (normaliseRequiresReplace nil String PathEqual sort_Slice rs') =
         map String (normaliseRequiresReplace nil String PathEqual sort_Slice rs)"
proof -
  have "mset (map String rs') = mset (map String rs)" using perm by simp
  then have "sort (map String rs') = sort (map String rs)" by (rule sort_mset_cong)
  then show ?thesis by (simp only: normalise_canonical [OF eq srt] normalise_canonical [OF eq srt'])
qed

lemma list_all2_key:
  assumes eq: "\<forall>p q. PathEqual p q = (String p = String q)"
  shows "list_all2 PathEqual xs ys = (map String xs = map String ys)"
proof -
  have "PathEqual = (\<lambda>p q. String p = String q)" using eq by auto
  then have "list_all2 PathEqual xs ys = list_all2 (=) (map String xs) (map String ys)"
    by (simp add: list.rel_map)
  then show ?thesis by (simp add: list.rel_eq)
qed

lemma length_filter_key:
  "length (filter (\<lambda>q. k = String q) out) = count (mset (map String out)) k"
  by (induction out) auto

lemma one_entry_per_key:
  fixes String :: "'p \<Rightarrow> string"
  assumes eq: "\<forall>p q. PathEqual p q = (String p = String q)"
    and d: "distinct (map String out)"
    and k: "String p \<in> String ` set out"
  shows "length (filter (PathEqual p) out) = 1"
proof -
  have "PathEqual p = (\<lambda>q. String p = String q)" using eq by auto
  then have "length (filter (PathEqual p) out) = count (mset (map String out)) (String p)"
    by (simp only: length_filter_key)
  also have "\<dots> = 1" using d k by (simp add: distinct_count_atmost_1)
  finally show ?thesis .
qed

text \<open>
  Claim C3. Under the hypotheses of C2 (for each list that is sorted), normalising a
  normalised list gives the same list; a permutation \<open>rs'\<close> of \<open>rs\<close> has the same normal form
  up to path equality (the same string renderings, entry by entry), and the same list when
  the rendering is injective on the paths of \<open>rs\<close>; and every path of the input is equal to
  exactly one entry of the result, which is sorted.
\<close>

theorem normaliseRequiresReplace_idempotent_permutation_invariant:
  fixes String :: "'p \<Rightarrow> string"
  assumes eq: "\<forall>p q. PathEqual p q = (String p = String q)"
    and srt: "sort_Slice_sorts sort_Slice (\<lambda>a b. String a < String b) rs"
    and srt2: "sort_Slice_sorts sort_Slice (\<lambda>a b. String a < String b)
                 (normaliseRequiresReplace nil String PathEqual sort_Slice rs)"
    and srt': "sort_Slice_sorts sort_Slice (\<lambda>a b. String a < String b) rs'"
    and perm: "mset rs' = mset rs"
  shows "normaliseRequiresReplace nil String PathEqual sort_Slice
           (normaliseRequiresReplace nil String PathEqual sort_Slice rs) =
         normaliseRequiresReplace nil String PathEqual sort_Slice rs \<and>
         map String (normaliseRequiresReplace nil String PathEqual sort_Slice rs') =
         map String (normaliseRequiresReplace nil String PathEqual sort_Slice rs) \<and>
         list_all2 PathEqual (normaliseRequiresReplace nil String PathEqual sort_Slice rs')
           (normaliseRequiresReplace nil String PathEqual sort_Slice rs) \<and>
         (inj_on String (set rs) \<longrightarrow>
            normaliseRequiresReplace nil String PathEqual sort_Slice rs' =
            normaliseRequiresReplace nil String PathEqual sort_Slice rs) \<and>
         (\<forall>p\<in>set rs. length (filter (PathEqual p)
            (normaliseRequiresReplace nil String PathEqual sort_Slice rs)) = 1) \<and>
         sorted_wrt (<) (map String (normaliseRequiresReplace nil String PathEqual sort_Slice rs))"
proof (intro conjI impI ballI)
  let ?out = "normaliseRequiresReplace nil String PathEqual sort_Slice rs"
  let ?out' = "normaliseRequiresReplace nil String PathEqual sort_Slice rs'"
  have strict: "sorted_wrt (<) (map String ?out)"
    by (rule strict_sorted_normalise [OF eq srt])
  show "sorted_wrt (<) (map String ?out)" by (rule strict)
  show "normaliseRequiresReplace nil String PathEqual sort_Slice ?out = ?out"
    by (rule normalise_strict_id [OF eq srt2 strict])
  show m: "map String ?out' = map String ?out"
    by (rule normalise_permutation [OF eq srt srt' perm])
  show "list_all2 PathEqual ?out' ?out"
    using m by (simp only: list_all2_key [OF eq])
  show "?out' = ?out" if inj: "inj_on String (set rs)"
  proof -
    have "set rs' = set rs" using perm by (rule mset_eq_setD)
    then have "set ?out' \<union> set ?out \<subseteq> set rs"
      using set_normalise [OF srt, where PathEqual = PathEqual and nil = nil] set_normalise [OF srt', where PathEqual = PathEqual and nil = nil] by auto
    then have "inj_on String (set ?out' \<union> set ?out)" using inj by (rule inj_on_subset [rotated])
    then show ?thesis using m by (simp only: inj_on_map_eq_map)
  qed
  show "length (filter (PathEqual p) ?out) = 1" if "p \<in> set rs" for p
  proof -
    have "String p \<in> String ` set ?out"
      using that by (simp add: image_set_normalise [OF eq srt])
    moreover have "distinct (map String ?out)" using strict by (simp add: strict_sorted_iff)
    ultimately show ?thesis using eq by (intro one_entry_per_key)
  qed
qed

text \<open>The hypotheses of C3 at the paths \<open>b, a, a, c\<close> and their permutation \<open>c, a, b, a\<close>.\<close>

theorem normaliseRequiresReplace_idempotent_permutation_invariant_witness:
  "mset [''c'', ''a'', ''b'', ''a''] = mset [''b'', ''a'', ''a'', ''c''] \<and>
   normaliseRequiresReplace [] (\<lambda>p. p) (=) insertion_sort
     (normaliseRequiresReplace [] (\<lambda>p. p) (=) insertion_sort [''b'', ''a'', ''a'', ''c'']) =
   normaliseRequiresReplace [] (\<lambda>p. p) (=) insertion_sort [''b'', ''a'', ''a'', ''c''] \<and>
   normaliseRequiresReplace [] (\<lambda>p. p) (=) insertion_sort [''c'', ''a'', ''b'', ''a''] =
   normaliseRequiresReplace [] (\<lambda>p. p) (=) insertion_sort [''b'', ''a'', ''a'', ''c''] \<and>
   normaliseRequiresReplace [] (\<lambda>p. p) (=) insertion_sort [''b'', ''a'', ''a'', ''c''] = [''a'', ''b'', ''c'']"
proof -
  have e: "\<forall>p q::string. (p = q) = ((\<lambda>p. p) p = (\<lambda>p. p) q)" by simp
  have n: "normaliseRequiresReplace [] (\<lambda>p. p) (=) insertion_sort [''b'', ''a'', ''a'', ''c''] = [''a'', ''b'', ''c'']"
    by (simp add: normaliseRequiresReplace_list)
  have s: "sort_Slice_sorts insertion_sort (\<lambda>a b. (\<lambda>p. p) a < (\<lambda>p. p) b) [''b'', ''a'', ''a'', ''c'']"
    by (simp add: sort_Slice_sorts_def)
  have s2: "sort_Slice_sorts insertion_sort (\<lambda>a b. (\<lambda>p. p) a < (\<lambda>p. p) b)
      (normaliseRequiresReplace [] (\<lambda>p. p) (=) insertion_sort [''b'', ''a'', ''a'', ''c''])"
    by (simp add: n) (simp add: sort_Slice_sorts_def)
  have s': "sort_Slice_sorts insertion_sort (\<lambda>a b. (\<lambda>p. p) a < (\<lambda>p. p) b) [''c'', ''a'', ''b'', ''a'']"
    by (simp add: sort_Slice_sorts_def)
  have p: "mset [''c'', ''a'', ''b'', ''a''] = mset [''b'', ''a'', ''a'', ''c'']" by simp
  have i: "inj_on (\<lambda>p::string. p) (set [''b'', ''a'', ''a'', ''c''])" by simp
  show ?thesis
    using p n i normaliseRequiresReplace_idempotent_permutation_invariant [OF e s s2 s' p]
    by simp
qed

subsection \<open>The diagnostics of schema validation\<close>

text \<open>
  Claim C9. For every attribute path, each of the two functions returns a diagnostic of
  severity error with no path attached; its detail holds the path's string, as \<^verbatim>\<open>%q\<close>
  formats it, and says that the issue is always with the provider. Where \<^verbatim>\<open>%q\<close> only puts the
  string between double quotes (no character of it needs an escape), the detail holds the
  path's string itself.
\<close>

theorem AttributeMissing_diagnostics:
  "Severity (AttributeMissingAttributeTypesDiag String Quote attributePath) = SeverityError \<and>
   Path (AttributeMissingAttributeTypesDiag String Quote attributePath) = None \<and>
   sublist (Quote (String attributePath))
     (Detail (AttributeMissingAttributeTypesDiag String Quote attributePath)) \<and>
   sublist ''This is always an issue with the provider''
     (Detail (AttributeMissingAttributeTypesDiag String Quote attributePath)) \<and>
   Severity (AttributeMissingElementTypeDiag String Quote attributePath) = SeverityError \<and>
   Path (AttributeMissingElementTypeDiag String Quote attributePath) = None \<and>
   sublist (Quote (String attributePath))
     (Detail (AttributeMissingElementTypeDiag String Quote attributePath)) \<and>
   sublist ''This is always an issue with the provider''
     (Detail (AttributeMissingElementTypeDiag String Quote attributePath)) \<and>
   (Quote (String attributePath) = CHR 0x22 # String attributePath @ [CHR 0x22] \<longrightarrow>
      sublist (String attributePath)
        (Detail (AttributeMissingAttributeTypesDiag String Quote attributePath)) \<and>
      sublist (String attributePath)
        (Detail (AttributeMissingElementTypeDiag String Quote attributePath)))"
proof -
  let ?pre = "''When validating the schema, an implementation issue was found. ''"
  let ?mid = "'' and should be reported to the provider developers.\<newline>\<newline>''"
  let ?always = "''This is always an issue with the provider''"
  let ?q = "Quote (String attributePath)"
  let ?end1 = "'' is missing the AttributeTypes or CustomType field on an object Attribute. '' @
               ''One of these fields is required to prevent other unexpected errors or panics.''"
  let ?end2 = "'' is missing the CustomType or ElementType field on a collection Attribute. '' @
               ''One of these fields is required to prevent other unexpected errors or panics.''"
  have d1: "Detail (AttributeMissingAttributeTypesDiag String Quote attributePath) =
            ?pre @ ?always @ ?mid @ ?q @ ?end1"
    by (simp add: AttributeMissingAttributeTypesDiag_def NewErrorDiagnostic_def)
  have d2: "Detail (AttributeMissingElementTypeDiag String Quote attributePath) =
            ?pre @ ?always @ ?mid @ ?q @ ?end2"
    by (simp add: AttributeMissingElementTypeDiag_def NewErrorDiagnostic_def)
  have a: "sublist ?always (?pre @ ?always @ (?mid @ ?q @ e))" for e
    by (rule sublist_appendI)
  have q: "sublist ?q ((?pre @ ?always @ ?mid) @ ?q @ e)" for e
    by (rule sublist_appendI)
  have "sublist ?q (Detail (AttributeMissingAttributeTypesDiag String Quote attributePath))"
    using q [of ?end1] by (simp only: d1 append_assoc)
  moreover have "sublist ?always (Detail (AttributeMissingAttributeTypesDiag String Quote attributePath))"
    using a [of ?end1] by (simp only: d1)
  moreover have "sublist ?q (Detail (AttributeMissingElementTypeDiag String Quote attributePath))"
    using q [of ?end2] by (simp only: d2 append_assoc)
  moreover have "sublist ?always (Detail (AttributeMissingElementTypeDiag String Quote attributePath))"
    using a [of ?end2] by (simp only: d2)
  moreover have "sublist (String attributePath) (Detail (AttributeMissingAttributeTypesDiag String Quote attributePath))"
    if plain: "?q = CHR 0x22 # String attributePath @ [CHR 0x22]"
  proof -
    have "sublist (String attributePath) (([] @ ?pre @ ?always @ ?mid @ [CHR 0x22]) @ String attributePath @ ([CHR 0x22] @ ?end1))"
      by (rule sublist_appendI)
    then show ?thesis by (simp add: d1 plain)
  qed
  moreover have "sublist (String attributePath) (Detail (AttributeMissingElementTypeDiag String Quote attributePath))"
    if plain: "?q = CHR 0x22 # String attributePath @ [CHR 0x22]"
  proof -
    have "sublist (String attributePath) (([] @ ?pre @ ?always @ ?mid @ [CHR 0x22]) @ String attributePath @ ([CHR 0x22] @ ?end2))"
      by (rule sublist_appendI)
    then show ?thesis by (simp add: d2 plain)
  qed
  moreover have "Severity (AttributeMissingAttributeTypesDiag String Quote attributePath :: 'q Diagnostic) = SeverityError"
    "Path (AttributeMissingAttributeTypesDiag String Quote attributePath :: 'q Diagnostic) = None"
    "Severity (AttributeMissingElementTypeDiag String Quote attributePath :: 'q Diagnostic) = SeverityError"
    "Path (AttributeMissingElementTypeDiag String Quote attributePath :: 'q Diagnostic) = None"
    by (simp_all add: AttributeMissingAttributeTypesDiag_def AttributeMissingElementTypeDiag_def
        NewErrorDiagnostic_def)
  ultimately show ?thesis by blast
qed

text \<open>
  C9 at a path whose string is \<open>test\<close>, with a \<^verbatim>\<open>Quote\<close> that puts the string between double
  quotes, as \<^verbatim>\<open>strconv.Quote\<close> does with a string of plain characters.
\<close>

theorem AttributeMissing_diagnostics_witness:
  "(\<lambda>s. CHR 0x22 # s @ [CHR 0x22]) ((\<lambda>p. p) ''test'') = CHR 0x22 # (\<lambda>p. p) ''test'' @ [CHR 0x22] \<and>
   sublist ''test''
     (Detail (AttributeMissingAttributeTypesDiag (\<lambda>p. p) (\<lambda>s. CHR 0x22 # s @ [CHR 0x22]) ''test'' :: string Diagnostic)) \<and>
   sublist ''test''
     (Detail (AttributeMissingElementTypeDiag (\<lambda>p. p) (\<lambda>s. CHR 0x22 # s @ [CHR 0x22]) ''test'' :: string Diagnostic)) \<and>
   Detail (AttributeMissingElementTypeDiag (\<lambda>p. p) (\<lambda>s. CHR 0x22 # s @ [CHR 0x22]) ''test'' :: string Diagnostic) =
     ''When validating the schema, an implementation issue was found. This is always an issue with the provider and should be reported to the provider developers.\<newline>\<newline>'' @
     [CHR 0x22] @ ''test'' @ [CHR 0x22] @
     '' is missing the CustomType or ElementType field on a collection Attribute. One of these fields is required to prevent other unexpected errors or panics.''"
proof -
  have q: "(\<lambda>s. CHR 0x22 # s @ [CHR 0x22]) ((\<lambda>p. p) ''test'') = CHR 0x22 # (\<lambda>p. p) ''test'' @ [CHR 0x22]"
    by simp
  from AttributeMissing_diagnostics
         [where String = "\<lambda>p. p" and Quote = "\<lambda>s. CHR 0x22 # s @ [CHR 0x22]" and attributePath = "''test''"] q
  have "sublist ((\<lambda>p. p) ''test'')
          (Detail (AttributeMissingAttributeTypesDiag (\<lambda>p. p) (\<lambda>s. CHR 0x22 # s @ [CHR 0x22]) ''test'' :: string Diagnostic)) \<and>
        sublist ((\<lambda>p. p) ''test'')
          (Detail (AttributeMissingElementTypeDiag (\<lambda>p. p) (\<lambda>s. CHR 0x22 # s @ [CHR 0x22]) ''test'' :: string Diagnostic))"
    by blast
  then show ?thesis
    by (simp add: AttributeMissingElementTypeDiag_def NewErrorDiagnostic_def)
qed

subsection \<open>Steps applied to a string attribute\<close>

text \<open>
  Claim C8. Each of the four kinds of step applied to a string attribute fails: no child
  is returned, and the error's message names the type of the step and the type of the
  attribute, with the texts of the test.
\<close>

theorem StringAttribute_ApplyTerraform5AttributePathStep_fails:
  "fst (ApplyTerraform5AttributePathStep a step) = None \<and>
   (\<exists>msg. snd (ApplyTerraform5AttributePathStep a step) = Some (errorString msg) \<and>
      sublist (step_type_name step) msg \<and> sublist ''basetypes.StringType'' msg) \<and>
   ApplyTerraform5AttributePathStep a (AttributeName n) =
     (None, Some (errorString ''cannot apply AttributePathStep tftypes.AttributeName to basetypes.StringType'')) \<and>
   ApplyTerraform5AttributePathStep a (ElementKeyInt i) =
     (None, Some (errorString ''cannot apply AttributePathStep tftypes.ElementKeyInt to basetypes.StringType'')) \<and>
   ApplyTerraform5AttributePathStep a (ElementKeyString k) =
     (None, Some (errorString ''cannot apply AttributePathStep tftypes.ElementKeyString to basetypes.StringType'')) \<and>
   ApplyTerraform5AttributePathStep a (ElementKeyValue v) =
     (None, Some (errorString ''cannot apply AttributePathStep tftypes.ElementKeyValue to basetypes.StringType''))"
proof -
  have "sublist (step_type_name step)
          (''cannot apply AttributePathStep '' @ step_type_name step @ '' to '' @ ''basetypes.StringType'')"
    by (rule sublist_appendI)
  moreover have "sublist ''basetypes.StringType''
          ((''cannot apply AttributePathStep '' @ step_type_name step @ '' to '') @ ''basetypes.StringType'' @ [])"
    by (rule sublist_appendI)
  ultimately show ?thesis
    by (simp add: ApplyTerraform5AttributePathStep_def)
qed


subsection \<open>The callback of the mark-unknown pass\<close>

text \<open>
  Claim C1. At a path of one step or more: where the config holds a value that is not
  null, the plan's value is returned as it is; where the config holds null, the attribute
  is looked up in the schema, and the plan's value is returned as it is when the attribute
  is not computed, and replaced by the unknown value of its type when it is; a failure of
  the lookup is an error, except when the path is inside an atomic attribute, which leaves
  the value as it is. (A failure to walk the config other than the invalid step, the last
  conjunct, is returned as the error it is.)
\<close>

theorem markComputedNilsAsUnknown_positions:
  assumes "1 \<le> length path"
  shows
    "(WalkAttributePath config path = Inr configVal \<and> \<not> IsNull configVal \<longrightarrow>
        markComputedNilsAsUnknown WalkAttributePath AttributeAtPath config resourceSchema path val = Inr val) \<and>
     (WalkAttributePath config path = Inr configVal \<and> IsNull configVal \<and>
      AttributeAtPath resourceSchema path = Inr attribute \<and> \<not> Computed attribute \<longrightarrow>
        markComputedNilsAsUnknown WalkAttributePath AttributeAtPath config resourceSchema path val = Inr val) \<and>
     (WalkAttributePath config path = Inr configVal \<and> IsNull configVal \<and>
      AttributeAtPath resourceSchema path = Inr attribute \<and> Computed attribute \<longrightarrow>
        markComputedNilsAsUnknown WalkAttributePath AttributeAtPath config resourceSchema path val =
          Inr (NewValue (Type val) UnknownValue) \<and>
        Type (NewValue (Type val) UnknownValue) = Type val \<and>
        \<not> IsKnown (NewValue (Type val) UnknownValue)) \<and>
     (WalkAttributePath config path = Inr configVal \<and> IsNull configVal \<and>
      AttributeAtPath resourceSchema path = Inl err \<and> \<not> errors_Is err ErrPathInsideAtomicAttribute \<longrightarrow>
        markComputedNilsAsUnknown WalkAttributePath AttributeAtPath config resourceSchema path val =
          Inl (wrapError ''couldn't find attribute in resource schema: '' err)) \<and>
     (WalkAttributePath config path = Inr configVal \<and> IsNull configVal \<and>
      AttributeAtPath resourceSchema path = Inl err \<and> errors_Is err ErrPathInsideAtomicAttribute \<longrightarrow>
        markComputedNilsAsUnknown WalkAttributePath AttributeAtPath config resourceSchema path val = Inr val) \<and>
     (WalkAttributePath config path = Inl walkErr \<and> walkErr \<noteq> ErrInvalidStep \<longrightarrow>
        markComputedNilsAsUnknown WalkAttributePath AttributeAtPath config resourceSchema path val = Inl walkErr)"
proof -
  from assms have "path \<noteq> []" by auto
  then show ?thesis by (simp add: markComputedNilsAsUnknown_def IsKnown_def)
qed


text \<open>
  C1 at the sample schema: \<open>id\<close> is computed and null in the config, and its null value in
  the plan becomes unknown.
\<close>

theorem markComputedNilsAsUnknown_positions_witness:
  "1 \<le> length [AttributeName ''id''] \<and>
   sample_WalkAttributePath (sample_object NullValue (StringVal ''a'')) [AttributeName ''id''] =
     Inr (NewValue StringT NullValue) \<and>
   IsNull (NewValue StringT NullValue) \<and>
   sample_AttributeAtPath sample_schema [AttributeName ''id''] =
     Inr \<lparr>Attribute_Required = False, Attribute_Optional = False, Computed = True, Sensitive = False\<rparr> \<and>
   markComputedNilsAsUnknown sample_WalkAttributePath sample_AttributeAtPath
     (sample_object NullValue (StringVal ''a'')) sample_schema [AttributeName ''id''] (NewValue StringT NullValue) =
     Inr (NewValue StringT UnknownValue)"
proof -
  have l: "1 \<le> length [AttributeName ''id'']" by simp
  have w: "sample_WalkAttributePath (sample_object NullValue (StringVal ''a'')) [AttributeName ''id''] =
     Inr (NewValue StringT NullValue)"
    by (simp add: sample_object_def sample_step_def)
  have n: "IsNull (NewValue StringT NullValue)" by (simp add: IsNull_def)
  have a: "sample_AttributeAtPath sample_schema [AttributeName ''id''] =
     Inr \<lparr>Attribute_Required = False, Attribute_Optional = False, Computed = True, Sensitive = False\<rparr>"
    by (simp add: sample_schema_def)
  have c: "Computed \<lparr>Attribute_Required = False, Attribute_Optional = False, Computed = True, Sensitive = False\<rparr>"
    by simp
  from markComputedNilsAsUnknown_positions
      [where path = "[AttributeName ''id'']" and WalkAttributePath = sample_WalkAttributePath
         and config = "sample_object NullValue (StringVal ''a'')"
         and configVal = "NewValue StringT NullValue" and AttributeAtPath = sample_AttributeAtPath
         and resourceSchema = sample_schema and val = "NewValue StringT NullValue"
         and attribute = "\<lparr>Attribute_Required = False, Attribute_Optional = False, Computed = True, Sensitive = False\<rparr>",
       OF l]
    w n a c
  have "markComputedNilsAsUnknown sample_WalkAttributePath sample_AttributeAtPath
     (sample_object NullValue (StringVal ''a'')) sample_schema [AttributeName ''id''] (NewValue StringT NullValue) =
     Inr (NewValue (Type (NewValue StringT NullValue)) UnknownValue)"
    by blast
  then show ?thesis using l w n a by simp
qed


text \<open>
  Claim C10. When the walk of the config fails with the invalid step, the callback does
  what it does for a null config value: it goes by the schema alone, and returns exactly
  what it returns with any walk that finds null at the path.
\<close>

theorem markComputedNilsAsUnknown_invalid_step:
  assumes "1 \<le> length path"
    and "WalkAttributePath config path = Inl ErrInvalidStep"
  shows
    "markComputedNilsAsUnknown WalkAttributePath AttributeAtPath config resourceSchema path val =
       (case AttributeAtPath resourceSchema path of
          Inl err \<Rightarrow>
            if errors_Is err ErrPathInsideAtomicAttribute then Inr val
            else Inl (wrapError ''couldn't find attribute in resource schema: '' err)
        | Inr attribute \<Rightarrow>
            if Computed attribute then Inr (NewValue (Type val) UnknownValue) else Inr val) \<and>
     (WalkAttributePath' config path = Inr configVal \<and> IsNull configVal \<longrightarrow>
        markComputedNilsAsUnknown WalkAttributePath AttributeAtPath config resourceSchema path val =
        markComputedNilsAsUnknown WalkAttributePath' AttributeAtPath config resourceSchema path val)"
proof -
  from assms(1) have "path \<noteq> []" by auto
  then show ?thesis using assms(2)
    by (auto simp: markComputedNilsAsUnknown_def split: sum.splits)
qed


text \<open>
  C10 at the sample schema and a null config, where no path can be walked: the computed
  \<open>id\<close> becomes unknown and the optional \<open>name\<close> stays.
\<close>

theorem markComputedNilsAsUnknown_invalid_step_witness:
  "1 \<le> length [AttributeName ''id''] \<and>
   sample_WalkAttributePath (NewValue (sample_TerraformType sample_schema) NullValue) [AttributeName ''id''] =
     Inl ErrInvalidStep \<and>
   markComputedNilsAsUnknown sample_WalkAttributePath sample_AttributeAtPath
     (NewValue (sample_TerraformType sample_schema) NullValue) sample_schema
     [AttributeName ''id''] (NewValue StringT NullValue) =
     Inr (NewValue StringT UnknownValue) \<and>
   markComputedNilsAsUnknown sample_WalkAttributePath sample_AttributeAtPath
     (NewValue (sample_TerraformType sample_schema) NullValue) sample_schema
     [AttributeName ''name''] (NewValue StringT (StringVal ''a'')) =
     Inr (NewValue StringT (StringVal ''a''))"
proof -
  have l: "1 \<le> length [AttributeName ''id'']" "1 \<le> length [AttributeName ''name'']" by simp_all
  have w: "sample_WalkAttributePath (NewValue (sample_TerraformType sample_schema) NullValue) [AttributeName ''id''] =
     Inl ErrInvalidStep"
     "sample_WalkAttributePath (NewValue (sample_TerraformType sample_schema) NullValue) [AttributeName ''name''] =
     Inl ErrInvalidStep"
    by (simp_all add: sample_step_def)
  show ?thesis
    using l(1) w(1)
      markComputedNilsAsUnknown_invalid_step
        [where path = "[AttributeName ''id'']" and WalkAttributePath = sample_WalkAttributePath
           and config = "NewValue (sample_TerraformType sample_schema) NullValue"
           and AttributeAtPath = sample_AttributeAtPath and resourceSchema = sample_schema
           and val = "NewValue StringT NullValue", OF l(1) w(1)]
      markComputedNilsAsUnknown_invalid_step
        [where path = "[AttributeName ''name'']" and WalkAttributePath = sample_WalkAttributePath
           and config = "NewValue (sample_TerraformType sample_schema) NullValue"
           and AttributeAtPath = sample_AttributeAtPath and resourceSchema = sample_schema
           and val = "NewValue StringT (StringVal ''a'')", OF l(2) w(2)]
    by (simp add: sample_schema_def)
qed


lemmas sample_defs = sample_Server_def sample_schema_def sample_object_def wire_def sample_wire_def
  requires_replace_if_null_def sample_request_def sample_TerraformType_def sample_Unmarshal_def
  sample_NewDynamicValue_def sample_Transform_def sample_String_def sample_step_def
  no_attribute_modifiers_def failing_ModifyPlan_def delete_request_def
  unencodable_ModifyPlan_def undecodable_request_def

lemmas plan_defs = planResourceChange_def planResourceChange_passes_def planResourceChange_inputs_def
  planResourceChange_markUnknown_def planResourceChange_attributePlanModifiers_def
  planResourceChange_modifyPlan_def planResourceChange_response_def planResourceChange_providerMeta_def
  markComputedNilsAsUnknown_def normaliseRequiresReplace_def
  HasError_def Append_def AddError_def NewErrorDiagnostic_def IsNull_def Equal_def

subsection \<open>planResourceChange: its parts and the collaborators they call\<close>

lemma inputs_Transform [simp]:
  "planResourceChange_inputs (s\<lparr>tftypes_Transform := t\<rparr>) req = planResourceChange_inputs s req"
  by (simp add: planResourceChange_inputs_def Let_def split: prod.splits option.splits sum.splits)

lemma inputs_SchemaModifyPlan [simp]:
  "planResourceChange_inputs (s\<lparr>SchemaModifyPlan := m\<rparr>) req = planResourceChange_inputs s req"
  by (simp add: planResourceChange_inputs_def Let_def split: prod.splits option.splits sum.splits)

lemma providerMeta_Transform [simp]:
  "planResourceChange_providerMeta (s\<lparr>tftypes_Transform := t\<rparr>) req resp =
   planResourceChange_providerMeta s req resp"
  by (simp add: planResourceChange_providerMeta_def Let_def split: prod.splits option.splits sum.splits)

lemma providerMeta_SchemaModifyPlan [simp]:
  "planResourceChange_providerMeta (s\<lparr>SchemaModifyPlan := m\<rparr>) req resp =
   planResourceChange_providerMeta s req resp"
  by (simp add: planResourceChange_providerMeta_def Let_def split: prod.splits option.splits sum.splits)

lemma markUnknown_SchemaModifyPlan [simp]:
  "planResourceChange_markUnknown (s\<lparr>SchemaModifyPlan := m\<rparr>) resourceSchema config state plan resp =
   planResourceChange_markUnknown s resourceSchema config state plan resp"
  by (simp add: planResourceChange_markUnknown_def Let_def split: prod.splits option.splits sum.splits)

lemma markUnknown_skipped:
  "IsNull plan \<or> Equal plan state \<Longrightarrow>
   planResourceChange_markUnknown s resourceSchema config state plan resp = Inr plan"
  by (auto simp: planResourceChange_markUnknown_def)

lemma attributePlanModifiers_Transform [simp]:
  "planResourceChange_attributePlanModifiers (s\<lparr>tftypes_Transform := t\<rparr>) req resourceSchema config state plan resp =
   planResourceChange_attributePlanModifiers s req resourceSchema config state plan resp"
  by (simp add: planResourceChange_attributePlanModifiers_def Let_def split: prod.splits option.splits sum.splits)

lemma attributePlanModifiers_skipped:
  "IsNull plan \<Longrightarrow>
   planResourceChange_attributePlanModifiers s req resourceSchema config state plan resp = Inr (plan, resp)"
  by (simp add: planResourceChange_attributePlanModifiers_def Let_def split: prod.splits option.splits sum.splits)

lemma modifyPlan_Transform [simp]:
  "planResourceChange_modifyPlan (s\<lparr>tftypes_Transform := t\<rparr>) req resourceSchema resource config state plan resp =
   planResourceChange_modifyPlan s req resourceSchema resource config state plan resp"
  by (simp add: planResourceChange_modifyPlan_def Let_def split: prod.splits option.splits sum.splits)

lemma modifyPlan_SchemaModifyPlan [simp]:
  "planResourceChange_modifyPlan (s\<lparr>SchemaModifyPlan := m\<rparr>) req resourceSchema resource config state plan resp =
   planResourceChange_modifyPlan s req resourceSchema resource config state plan resp"
  by (simp add: planResourceChange_modifyPlan_def Let_def split: prod.splits option.splits sum.splits)

lemma response_Transform [simp]:
  "planResourceChange_response (s\<lparr>tftypes_Transform := t\<rparr>) plan resp modifyPlanResp =
   planResourceChange_response s plan resp modifyPlanResp"
  by (simp add: planResourceChange_response_def Let_def split: prod.splits option.splits sum.splits)

lemma response_SchemaModifyPlan [simp]:
  "planResourceChange_response (s\<lparr>SchemaModifyPlan := m\<rparr>) plan resp modifyPlanResp =
   planResourceChange_response s plan resp modifyPlanResp"
  by (simp add: planResourceChange_response_def Let_def split: prod.splits option.splits sum.splits)

lemma passes_skipped:
  assumes "planResourceChange_inputs s req = Inr (resourceSchema, resource, config, plan, state, resp)"
    and "IsNull plan"
  shows "planResourceChange_passes s req =
         planResourceChange_modifyPlan s req resourceSchema resource config state plan resp"
  using assms
  by (simp add: planResourceChange_passes_def markUnknown_skipped attributePlanModifiers_skipped)

lemma passes_Transform_skipped:
  assumes "planResourceChange_inputs s req = Inr (resourceSchema, resource, config, plan, state, resp)"
    and "IsNull plan \<or> Equal plan state"
  shows "planResourceChange_passes (s\<lparr>tftypes_Transform := t\<rparr>) req = planResourceChange_passes s req"
  using assms
  by (simp add: planResourceChange_passes_def markUnknown_skipped split: sum.splits prod.splits)

lemma passes_markUnknown_error:
  assumes "planResourceChange_inputs s req = Inr (resourceSchema, resource, config, plan, state, resp)"
    and "planResourceChange_markUnknown s resourceSchema config state plan resp = Inl r"
  shows "planResourceChange s req = r"
  using assms by (simp add: planResourceChange_def planResourceChange_passes_def)

text \<open>
  Claim C4. Let the request's values be read without error, with \<open>plan\<close> the proposed and
  \<open>state\<close> the prior one. When the plan is null or equal to the state, the response does not
  depend on \<^verbatim>\<open>tftypes.Transform\<close>: the mark-unknown pass does not run. When the plan is not
  null and differs from the state, the pass runs: an error of \<^verbatim>\<open>Transform\<close> ends the function
  with the diagnostic "Error modifying plan". When the plan is null the attributes' plan
  modifiers do not run either, and where the resource's \<^verbatim>\<open>ModifyPlan\<close> leaves the plan as it
  is (or the resource has none), the planned state of the response is the wire form of
  the null plan, whatever the schema.
\<close>

theorem planResourceChange_markUnknown_only_when_changed:
  assumes inputs: "planResourceChange_inputs s req = Inr (resourceSchema, resource, config, plan, state, resp)"
  shows
    "(IsNull plan \<or> Equal plan state \<longrightarrow>
        planResourceChange (s\<lparr>tftypes_Transform := t\<rparr>) req = planResourceChange s req) \<and>
     (\<not> IsNull plan \<and> \<not> Equal plan state \<and>
      tftypes_Transform s plan
        (markComputedNilsAsUnknown (tftypes_WalkAttributePath s) (Schema_AttributeAtPath s)
           config resourceSchema) = Inl err \<longrightarrow>
        planResourceChange s req =
          resp\<lparr>Diagnostics := AddError (Diagnostics resp)
            ''Error modifying plan''
            (''There was an unexpected error updating the plan. This is always a problem with the provider. Please report the following to the provider developer:\<newline>\<newline>'' @ Error err)\<rparr>) \<and>
     (IsNull plan \<longrightarrow>
        planResourceChange (s\<lparr>SchemaModifyPlan := m\<rparr>) req = planResourceChange s req) \<and>
     (IsNull plan \<and>
      planResourceChange_modifyPlan s req resourceSchema resource config state plan resp =
        Inr (plan, resp', modifyPlanResp) \<and>
      NewDynamicValue s (Type plan) plan = Inr plannedState \<longrightarrow>
        PlannedState (planResourceChange s req) = Some plannedState) \<and>
     (IsNull plan \<and> ModifyPlan resource = None \<and>
      NewDynamicValue s (Type plan) plan = Inr plannedState \<longrightarrow>
        planResourceChange s req =
          resp\<lparr>PlannedState := Some plannedState,
               RequiresReplace :=
                 normaliseRequiresReplace [] (AttributePath_String s) (AttributePath_Equal s) (go_sort_Slice s)
                   (RequiresReplace resp)\<rparr>)"
proof (intro conjI impI)
  show "planResourceChange (s\<lparr>tftypes_Transform := t\<rparr>) req = planResourceChange s req"
    if "IsNull plan \<or> Equal plan state"
    using passes_Transform_skipped [OF inputs that]
    by (simp add: planResourceChange_def split: sum.splits prod.splits)
  show "planResourceChange s req =
          resp\<lparr>Diagnostics := AddError (Diagnostics resp)
            ''Error modifying plan''
            (''There was an unexpected error updating the plan. This is always a problem with the provider. Please report the following to the provider developer:\<newline>\<newline>'' @ Error err)\<rparr>"
    if "\<not> IsNull plan \<and> \<not> Equal plan state \<and>
      tftypes_Transform s plan
        (markComputedNilsAsUnknown (tftypes_WalkAttributePath s) (Schema_AttributeAtPath s)
           config resourceSchema) = Inl err"
    by (rule passes_markUnknown_error [OF inputs]) (use that in \<open>simp add: planResourceChange_markUnknown_def\<close>)
  show "planResourceChange (s\<lparr>SchemaModifyPlan := m\<rparr>) req = planResourceChange s req" if n: "IsNull plan"
  proof -
    have i: "planResourceChange_inputs (s\<lparr>SchemaModifyPlan := m\<rparr>) req =
        Inr (resourceSchema, resource, config, plan, state, resp)"
      using inputs by simp
    show ?thesis
      by (simp add: planResourceChange_def passes_skipped [OF i n] passes_skipped [OF inputs n]
          split: sum.splits prod.splits)
  qed
  show "PlannedState (planResourceChange s req) = Some plannedState"
    if "IsNull plan \<and>
      planResourceChange_modifyPlan s req resourceSchema resource config state plan resp =
        Inr (plan, resp', modifyPlanResp) \<and>
      NewDynamicValue s (Type plan) plan = Inr plannedState"
    using that passes_skipped [OF inputs, of ]
    by (simp add: planResourceChange_def planResourceChange_response_def Let_def)
  show "planResourceChange s req =
          resp\<lparr>PlannedState := Some plannedState,
               RequiresReplace :=
                 normaliseRequiresReplace [] (AttributePath_String s) (AttributePath_Equal s) (go_sort_Slice s)
                   (RequiresReplace resp)\<rparr>"
    if "IsNull plan \<and> ModifyPlan resource = None \<and>
      NewDynamicValue s (Type plan) plan = Inr plannedState"
    using that passes_skipped [OF inputs]
    by (simp add: planResourceChange_def planResourceChange_response_def planResourceChange_modifyPlan_def Let_def)
qed


lemma delete_inputs:
  "planResourceChange_inputs (sample_Server sample_schema sample_wire no_attribute_modifiers None) delete_request =
     Inr (sample_schema, \<lparr>ModifyPlan = None\<rparr>,
          NewValue (sample_TerraformType sample_schema) NullValue,
          NewValue (sample_TerraformType sample_schema) NullValue,
          sample_object NullValue (StringVal ''a''),
          \<lparr>RequiresReplace = [], Diagnostics = [], PlannedState = Some (wire ''null''), PlannedPrivate = []\<rparr>)"
  by (simp add: sample_defs planResourceChange_inputs_def HasError_def Append_def)

text \<open>
  C4 at the request that deletes a resource: a \<^verbatim>\<open>Transform\<close> that always fails changes
  nothing, and the planned state is the null value.
\<close>

theorem planResourceChange_markUnknown_only_when_changed_witness:
  "planResourceChange_inputs (sample_Server sample_schema sample_wire no_attribute_modifiers None) delete_request =
     Inr (sample_schema, \<lparr>ModifyPlan = None\<rparr>,
          NewValue (sample_TerraformType sample_schema) NullValue,
          NewValue (sample_TerraformType sample_schema) NullValue,
          sample_object NullValue (StringVal ''a''),
          \<lparr>RequiresReplace = [], Diagnostics = [], PlannedState = Some (wire ''null''), PlannedPrivate = []\<rparr>) \<and>
   IsNull (NewValue (sample_TerraformType sample_schema) NullValue) \<and>
   planResourceChange
     ((sample_Server sample_schema sample_wire no_attribute_modifiers None)
        \<lparr>tftypes_Transform := \<lambda>v cb. Inl (errorString ''not called'')\<rparr>) delete_request =
   planResourceChange (sample_Server sample_schema sample_wire no_attribute_modifiers None) delete_request \<and>
   planResourceChange (sample_Server sample_schema sample_wire no_attribute_modifiers None) delete_request =
     \<lparr>RequiresReplace = [], Diagnostics = [], PlannedState = Some (wire ''null''), PlannedPrivate = []\<rparr>"
proof -
  have n: "IsNull (NewValue (sample_TerraformType sample_schema) NullValue)"
    by (simp add: IsNull_def)
  have m: "ModifyPlan \<lparr>ModifyPlan = None :: (sample_schema ModifyPlanRequest \<Rightarrow> sample_schema ModifyPlanResponse \<Rightarrow> sample_schema ModifyPlanResponse) option\<rparr> = None"
    by simp
  have d: "NewDynamicValue (sample_Server sample_schema sample_wire no_attribute_modifiers None)
             (Type (NewValue (sample_TerraformType sample_schema) NullValue))
             (NewValue (sample_TerraformType sample_schema) NullValue) = Inr (wire ''null'')"
    by (simp add: sample_defs)
  note t = planResourceChange_markUnknown_only_when_changed [OF delete_inputs,
      where t = "\<lambda>v cb. Inl (errorString ''not called'')" and plannedState = "wire ''null''"]
  from t n have 1: "planResourceChange
     ((sample_Server sample_schema sample_wire no_attribute_modifiers None)
        \<lparr>tftypes_Transform := \<lambda>v cb. Inl (errorString ''not called'')\<rparr>) delete_request =
    planResourceChange (sample_Server sample_schema sample_wire no_attribute_modifiers None) delete_request"
    by blast
  from t n m d have "planResourceChange (sample_Server sample_schema sample_wire no_attribute_modifiers None) delete_request =
     \<lparr>RequiresReplace = [], Diagnostics = [], PlannedState = Some (wire ''null''), PlannedPrivate = []\<rparr>
          \<lparr>PlannedState := Some (wire ''null''),
               RequiresReplace :=
                 normaliseRequiresReplace []
                   (AttributePath_String (sample_Server sample_schema sample_wire no_attribute_modifiers None))
                   (AttributePath_Equal (sample_Server sample_schema sample_wire no_attribute_modifiers None))
                   (go_sort_Slice (sample_Server sample_schema sample_wire no_attribute_modifiers None))
                   (RequiresReplace \<lparr>RequiresReplace = [], Diagnostics = [], PlannedState = Some (wire ''null''), PlannedPrivate = []\<rparr>)\<rparr>"
    by blast
  then have 2: "planResourceChange (sample_Server sample_schema sample_wire no_attribute_modifiers None) delete_request =
     \<lparr>RequiresReplace = [], Diagnostics = [], PlannedState = Some (wire ''null''), PlannedPrivate = []\<rparr>"
    by (simp add: normaliseRequiresReplace_def)
  show ?thesis using delete_inputs n 1 2 by simp
qed

text \<open>
  Claim C6, at a resource whose \<^verbatim>\<open>ModifyPlan\<close> sets \<open>id\<close> to \<open>x\<close> in the plan and records an
  error: the response holds the error, and its planned state is the plan that \<^verbatim>\<open>ModifyPlan\<close>
  left, since no check of the diagnostics follows the call (line 551). The same callback run
  as the attributes' plan modifier ends the function at the check of line 482, and the
  planned state stays the proposed one.
\<close>

theorem planResourceChange_modifyPlan_error_keeps_plan:
  "planResourceChange (sample_Server sample_schema sample_wire no_attribute_modifiers (Some failing_ModifyPlan))
     sample_request =
     \<lparr>RequiresReplace = [],
      Diagnostics = [NewErrorDiagnostic ''Cannot plan'' ''The resource cannot be planned.''],
      PlannedState = Some (wire ''modified''), PlannedPrivate = []\<rparr> \<and>
   HasError (Diagnostics (planResourceChange
     (sample_Server sample_schema sample_wire no_attribute_modifiers (Some failing_ModifyPlan)) sample_request)) \<and>
   planResourceChange (sample_Server sample_schema sample_wire (\<lambda>sch. failing_ModifyPlan) None)
     sample_request =
     \<lparr>RequiresReplace = [],
      Diagnostics = [NewErrorDiagnostic ''Cannot plan'' ''The resource cannot be planned.''],
      PlannedState = Some (wire ''proposed''), PlannedPrivate = []\<rparr>"
  by (simp add: sample_defs plan_defs)

text \<open>
  Claim C5 fails. The sample request proposes a plan with \<open>id\<close> null; the attributes' plan
  modifier asks for replacement of \<open>id\<close> when the plan it is shown holds null there, as it
  does on the proposed plan (first conjunct, second conjunct). The response asks for no
  replacement: the only plan the modifier was shown is the one the mark-unknown pass left,
  with \<open>id\<close> unknown, which is also the planned state.
\<close>

theorem planResourceChange_no_pass_before_markUnknown:
  "RequiresReplace
     (requires_replace_if_null ''id'' sample_schema
        \<lparr>Config = \<lparr>Schema = sample_schema, Raw = sample_object NullValue (StringVal ''a'')\<rparr>,
         State = \<lparr>Schema = sample_schema, Raw = NewValue (sample_TerraformType sample_schema) NullValue\<rparr>,
         Plan = \<lparr>Schema = sample_schema, Raw = sample_object NullValue (StringVal ''a'')\<rparr>,
         ProviderMeta = None\<rparr>
        \<lparr>RequiresReplace = [], Diagnostics = [],
         ModifyPlanResponse.Plan = \<lparr>Schema = sample_schema, Raw = sample_object NullValue (StringVal ''a'')\<rparr>\<rparr>) =
     [[AttributeName ''id'']] \<and>
   DynamicValue_Unmarshal (sample_Server sample_schema sample_wire (requires_replace_if_null ''id'') None)
     (ProposedNewState sample_request) (sample_TerraformType sample_schema) =
     Inr (sample_object NullValue (StringVal ''a'')) \<and>
   planResourceChange (sample_Server sample_schema sample_wire (requires_replace_if_null ''id'') None)
     sample_request =
     \<lparr>RequiresReplace = [], Diagnostics = [], PlannedState = Some (wire ''marked''), PlannedPrivate = []\<rparr> \<and>
   DynamicValue_Unmarshal (sample_Server sample_schema sample_wire (requires_replace_if_null ''id'') None)
     (wire ''marked'') (sample_TerraformType sample_schema) =
     Inr (sample_object UnknownValue (StringVal ''a''))"
  by (simp add: sample_defs plan_defs)


lemma attributePlanModifiers_run:
  assumes "planResourceChange_providerMeta s req resp = Inr (resp1, providerMeta)"
    and "\<not> IsNull plan1"
  shows "planResourceChange_attributePlanModifiers (s\<lparr>SchemaModifyPlan := m\<rparr>) req resourceSchema config state plan1 resp =
     (let r = m resourceSchema
                \<lparr>Config = \<lparr>Schema = resourceSchema, Raw = config\<rparr>,
                 State = \<lparr>Schema = resourceSchema, Raw = state\<rparr>,
                 Plan = \<lparr>Schema = resourceSchema, Raw = plan1\<rparr>,
                 ProviderMeta = providerMeta\<rparr>
                \<lparr>RequiresReplace = [], Diagnostics = Diagnostics resp1,
                 ModifyPlanResponse.Plan = \<lparr>Schema = resourceSchema, Raw = plan1\<rparr>\<rparr>;
          resp2 = resp1\<lparr>RequiresReplace := RequiresReplace resp1 @ RequiresReplace r,
                        Diagnostics := Diagnostics r\<rparr>
      in if HasError (Diagnostics r) then Inl resp2
         else Inr (Raw (ModifyPlanResponse.Plan r), resp2))"
  using assms by (simp add: planResourceChange_attributePlanModifiers_def Let_def)

lemma passes_after_markUnknown:
  assumes "planResourceChange_inputs s req = Inr (resourceSchema, resource, config, plan, state, resp)"
    and "planResourceChange_markUnknown s resourceSchema config state plan resp = Inr plan1"
  shows "planResourceChange_passes (s\<lparr>SchemaModifyPlan := m\<rparr>) req =
     (case planResourceChange_attributePlanModifiers (s\<lparr>SchemaModifyPlan := m\<rparr>) req resourceSchema
             config state plan1 resp of
        Inl r \<Rightarrow> Inl r
      | Inr (plan2, resp2) \<Rightarrow>
          planResourceChange_modifyPlan s req resourceSchema resource config state plan2 resp2)"
  using assms by (simp add: planResourceChange_passes_def split: sum.splits prod.splits)

lemma planResourceChange_SchemaModifyPlan:
  "planResourceChange (s\<lparr>SchemaModifyPlan := m\<rparr>) req =
     (case planResourceChange_passes (s\<lparr>SchemaModifyPlan := m\<rparr>) req of
        Inl resp \<Rightarrow> resp
      | Inr (plan, resp, modifyPlanResp) \<Rightarrow> planResourceChange_response s plan resp modifyPlanResp)"
  by (simp add: planResourceChange_def split: sum.splits prod.splits)

text \<open>
  Claim C5 as amended. With a non-null proposed plan, the attributes' plan modifiers run
  after the mark-unknown pass and not before it: \<open>plan1\<close>, the plan that pass leaves (the
  result of \<^verbatim>\<open>Transform\<close> when the plan differs from the state, the plan itself otherwise),
  is the only plan they are shown. Two modifiers that do the same with the request that
  holds \<open>plan1\<close> give the same response; and error diagnostics of the modifiers on that
  request end the function.
\<close>

theorem planResourceChange_attributePlanModifiers_after_markUnknown:
  assumes inputs: "planResourceChange_inputs s req = Inr (resourceSchema, resource, config, plan, state, resp)"
    and nonnull: "\<not> IsNull plan"
    and marked: "planResourceChange_markUnknown s resourceSchema config state plan resp = Inr plan1"
    and meta: "planResourceChange_providerMeta s req resp = Inr (resp1, providerMeta)"
  shows
    "(\<not> Equal plan state \<longrightarrow>
        tftypes_Transform s plan
          (markComputedNilsAsUnknown (tftypes_WalkAttributePath s) (Schema_AttributeAtPath s)
             config resourceSchema) = Inr plan1) \<and>
     (Equal plan state \<longrightarrow> plan1 = plan) \<and>
     (m resourceSchema
        \<lparr>Config = \<lparr>Schema = resourceSchema, Raw = config\<rparr>,
         State = \<lparr>Schema = resourceSchema, Raw = state\<rparr>,
         Plan = \<lparr>Schema = resourceSchema, Raw = plan1\<rparr>,
         ProviderMeta = providerMeta\<rparr>
        \<lparr>RequiresReplace = [], Diagnostics = Diagnostics resp1,
         ModifyPlanResponse.Plan = \<lparr>Schema = resourceSchema, Raw = plan1\<rparr>\<rparr> =
      m' resourceSchema
        \<lparr>Config = \<lparr>Schema = resourceSchema, Raw = config\<rparr>,
         State = \<lparr>Schema = resourceSchema, Raw = state\<rparr>,
         Plan = \<lparr>Schema = resourceSchema, Raw = plan1\<rparr>,
         ProviderMeta = providerMeta\<rparr>
        \<lparr>RequiresReplace = [], Diagnostics = Diagnostics resp1,
         ModifyPlanResponse.Plan = \<lparr>Schema = resourceSchema, Raw = plan1\<rparr>\<rparr> \<longrightarrow>
        planResourceChange (s\<lparr>SchemaModifyPlan := m\<rparr>) req =
        planResourceChange (s\<lparr>SchemaModifyPlan := m'\<rparr>) req) \<and>
     (\<not> IsNull plan1 \<and>
      HasError (Diagnostics (m resourceSchema
        \<lparr>Config = \<lparr>Schema = resourceSchema, Raw = config\<rparr>,
         State = \<lparr>Schema = resourceSchema, Raw = state\<rparr>,
         Plan = \<lparr>Schema = resourceSchema, Raw = plan1\<rparr>,
         ProviderMeta = providerMeta\<rparr>
        \<lparr>RequiresReplace = [], Diagnostics = Diagnostics resp1,
         ModifyPlanResponse.Plan = \<lparr>Schema = resourceSchema, Raw = plan1\<rparr>\<rparr>)) \<longrightarrow>
        planResourceChange (s\<lparr>SchemaModifyPlan := m\<rparr>) req =
          resp1\<lparr>RequiresReplace := RequiresReplace resp1 @ RequiresReplace (m resourceSchema
                  \<lparr>Config = \<lparr>Schema = resourceSchema, Raw = config\<rparr>,
                   State = \<lparr>Schema = resourceSchema, Raw = state\<rparr>,
                   Plan = \<lparr>Schema = resourceSchema, Raw = plan1\<rparr>,
                   ProviderMeta = providerMeta\<rparr>
                  \<lparr>RequiresReplace = [], Diagnostics = Diagnostics resp1,
                   ModifyPlanResponse.Plan = \<lparr>Schema = resourceSchema, Raw = plan1\<rparr>\<rparr>),
                Diagnostics := Diagnostics (m resourceSchema
                  \<lparr>Config = \<lparr>Schema = resourceSchema, Raw = config\<rparr>,
                   State = \<lparr>Schema = resourceSchema, Raw = state\<rparr>,
                   Plan = \<lparr>Schema = resourceSchema, Raw = plan1\<rparr>,
                   ProviderMeta = providerMeta\<rparr>
                  \<lparr>RequiresReplace = [], Diagnostics = Diagnostics resp1,
                   ModifyPlanResponse.Plan = \<lparr>Schema = resourceSchema, Raw = plan1\<rparr>\<rparr>)\<rparr>)"
proof (intro conjI impI)
  show "tftypes_Transform s plan
          (markComputedNilsAsUnknown (tftypes_WalkAttributePath s) (Schema_AttributeAtPath s)
             config resourceSchema) = Inr plan1" if "\<not> Equal plan state"
    using marked nonnull that
    by (simp add: planResourceChange_markUnknown_def split: sum.splits)
  show "plan1 = plan" if "Equal plan state"
    using marked that by (simp add: planResourceChange_markUnknown_def)
  let ?rq = "\<lparr>Config = \<lparr>Schema = resourceSchema, Raw = config\<rparr>,
         State = \<lparr>Schema = resourceSchema, Raw = state\<rparr>,
         Plan = \<lparr>Schema = resourceSchema, Raw = plan1\<rparr>,
         ProviderMeta = providerMeta\<rparr>"
  let ?rs = "\<lparr>RequiresReplace = [], Diagnostics = Diagnostics resp1,
         ModifyPlanResponse.Plan = \<lparr>Schema = resourceSchema, Raw = plan1\<rparr>\<rparr>"
  show "planResourceChange (s\<lparr>SchemaModifyPlan := m\<rparr>) req =
        planResourceChange (s\<lparr>SchemaModifyPlan := m'\<rparr>) req"
    if agree: "m resourceSchema ?rq ?rs = m' resourceSchema ?rq ?rs"
  proof (cases "IsNull plan1")
    case True
    then show ?thesis
      by (simp add: planResourceChange_SchemaModifyPlan passes_after_markUnknown [OF inputs marked]
          attributePlanModifiers_skipped)
  next
    case False
    show ?thesis
      by (simp add: planResourceChange_SchemaModifyPlan passes_after_markUnknown [OF inputs marked]
          attributePlanModifiers_run [OF meta False] agree)
  qed
  show "planResourceChange (s\<lparr>SchemaModifyPlan := m\<rparr>) req =
          resp1\<lparr>RequiresReplace := RequiresReplace resp1 @ RequiresReplace (m resourceSchema ?rq ?rs),
                Diagnostics := Diagnostics (m resourceSchema ?rq ?rs)\<rparr>"
    if "\<not> IsNull plan1 \<and> HasError (Diagnostics (m resourceSchema ?rq ?rs))"
    using that
    by (simp add: planResourceChange_SchemaModifyPlan passes_after_markUnknown [OF inputs marked]
        attributePlanModifiers_run [OF meta] Let_def)
qed

lemma create_inputs:
  "planResourceChange_inputs (sample_Server sample_schema sample_wire no_attribute_modifiers None) sample_request =
     Inr (sample_schema, \<lparr>ModifyPlan = None\<rparr>,
          sample_object NullValue (StringVal ''a''),
          sample_object NullValue (StringVal ''a''),
          NewValue (sample_TerraformType sample_schema) NullValue,
          \<lparr>RequiresReplace = [], Diagnostics = [], PlannedState = Some (wire ''proposed''), PlannedPrivate = []\<rparr>)"
  by (simp add: sample_defs planResourceChange_inputs_def HasError_def Append_def)

text \<open>
  The amended C5 at the sample request: on the marked plan the modifier that looks for a
  null \<open>id\<close> does what no modifier does, so both give the same response.
\<close>

theorem planResourceChange_attributePlanModifiers_after_markUnknown_witness:
  "\<not> IsNull (sample_object NullValue (StringVal ''a'')) \<and>
   planResourceChange_markUnknown (sample_Server sample_schema sample_wire no_attribute_modifiers None)
     sample_schema (sample_object NullValue (StringVal ''a''))
     (NewValue (sample_TerraformType sample_schema) NullValue) (sample_object NullValue (StringVal ''a''))
     \<lparr>RequiresReplace = [], Diagnostics = [], PlannedState = Some (wire ''proposed''), PlannedPrivate = []\<rparr> =
     Inr (sample_object UnknownValue (StringVal ''a'')) \<and>
   planResourceChange
     ((sample_Server sample_schema sample_wire no_attribute_modifiers None)
        \<lparr>SchemaModifyPlan := requires_replace_if_null ''id''\<rparr>) sample_request =
   planResourceChange
     ((sample_Server sample_schema sample_wire no_attribute_modifiers None)
        \<lparr>SchemaModifyPlan := no_attribute_modifiers\<rparr>) sample_request"
proof -
  let ?s = "sample_Server sample_schema sample_wire no_attribute_modifiers None"
  let ?resp = "\<lparr>RequiresReplace = [], Diagnostics = [], PlannedState = Some (wire ''proposed''), PlannedPrivate = []\<rparr>"
  have n: "\<not> IsNull (sample_object NullValue (StringVal ''a''))"
    by (simp add: IsNull_def sample_object_def)
  have k: "planResourceChange_markUnknown ?s sample_schema (sample_object NullValue (StringVal ''a''))
     (NewValue (sample_TerraformType sample_schema) NullValue) (sample_object NullValue (StringVal ''a''))
     ?resp = Inr (sample_object UnknownValue (StringVal ''a''))"
    by (simp add: sample_defs planResourceChange_markUnknown_def markComputedNilsAsUnknown_def
        IsNull_def Equal_def)
  have p: "planResourceChange_providerMeta ?s sample_request ?resp = Inr (?resp, None)"
    by (simp add: sample_defs planResourceChange_providerMeta_def HasError_def Append_def)
  have a: "requires_replace_if_null ''id'' sample_schema
        \<lparr>Config = \<lparr>Schema = sample_schema, Raw = sample_object NullValue (StringVal ''a'')\<rparr>,
         State = \<lparr>Schema = sample_schema, Raw = NewValue (sample_TerraformType sample_schema) NullValue\<rparr>,
         Plan = \<lparr>Schema = sample_schema, Raw = sample_object UnknownValue (StringVal ''a'')\<rparr>,
         ProviderMeta = None\<rparr>
        \<lparr>RequiresReplace = [], Diagnostics = Diagnostics ?resp,
         ModifyPlanResponse.Plan = \<lparr>Schema = sample_schema, Raw = sample_object UnknownValue (StringVal ''a'')\<rparr>\<rparr> =
      no_attribute_modifiers sample_schema
        \<lparr>Config = \<lparr>Schema = sample_schema, Raw = sample_object NullValue (StringVal ''a'')\<rparr>,
         State = \<lparr>Schema = sample_schema, Raw = NewValue (sample_TerraformType sample_schema) NullValue\<rparr>,
         Plan = \<lparr>Schema = sample_schema, Raw = sample_object UnknownValue (StringVal ''a'')\<rparr>,
         ProviderMeta = None\<rparr>
        \<lparr>RequiresReplace = [], Diagnostics = Diagnostics ?resp,
         ModifyPlanResponse.Plan = \<lparr>Schema = sample_schema, Raw = sample_object UnknownValue (StringVal ''a'')\<rparr>\<rparr>"
    by (simp add: requires_replace_if_null_def no_attribute_modifiers_def sample_object_def
        sample_step_def IsNull_def)
  from planResourceChange_attributePlanModifiers_after_markUnknown [OF create_inputs n k p,
      where m = "requires_replace_if_null ''id''" and m' = no_attribute_modifiers] a
  have "planResourceChange (?s\<lparr>SchemaModifyPlan := requires_replace_if_null ''id''\<rparr>) sample_request =
        planResourceChange (?s\<lparr>SchemaModifyPlan := no_attribute_modifiers\<rparr>) sample_request"
    by blast
  then show ?thesis using n k by simp
qed

text \<open>
  Claim C7. Let the resource type and its schema be found without an error diagnostic.
  If the config, the proposed state or the prior state cannot be read, the response is the
  diagnostics so far followed by one error diagnostic for the failure, the only error in
  it; no planned state is set and nothing else was run. If the final plan cannot be turned
  into its wire form, the response is the response so far with one error diagnostic added:
  the planned state is not replaced and the replacement paths are neither extended nor
  normalised.
\<close>

theorem planResourceChange_conversion_failures:
  assumes rt: "ResourceType s (TypeName req) = (resourceType, diags1)"
    and sch: "GetSchema resourceType = (resourceSchema, diags2)"
    and ok: "\<not> HasError (diags1 @ diags2)"
  shows
    "(DynamicValue_Unmarshal s (PlanResourceChangeRequest.Config req) (Schema_TerraformType s resourceSchema) = Inl err \<longrightarrow>
        planResourceChange s req =
          \<lparr>RequiresReplace = [],
           Diagnostics = diags1 @ diags2 @ [NewErrorDiagnostic ''Error parsing configuration''
             (''An unexpected error was encountered trying to parse the configuration. This is always an error in the provider. Please report the following to the provider developer:\<newline>\<newline>'' @ Error err)],
           PlannedState = None, PlannedPrivate = []\<rparr> \<and>
        length (filter (\<lambda>d. Severity d = SeverityError) (Diagnostics (planResourceChange s req))) = 1) \<and>
     (DynamicValue_Unmarshal s (PlanResourceChangeRequest.Config req) (Schema_TerraformType s resourceSchema) = Inr config \<and>
      DynamicValue_Unmarshal s (ProposedNewState req) (Schema_TerraformType s resourceSchema) = Inl err \<longrightarrow>
        planResourceChange s req =
          \<lparr>RequiresReplace = [],
           Diagnostics = diags1 @ diags2 @ [NewErrorDiagnostic ''Error parsing plan''
             (''There was an unexpected error parsing the plan. This is always a problem with the provider. Please report the following to the provider developer:\<newline>\<newline>'' @ Error err)],
           PlannedState = None, PlannedPrivate = []\<rparr> \<and>
        length (filter (\<lambda>d. Severity d = SeverityError) (Diagnostics (planResourceChange s req))) = 1) \<and>
     (DynamicValue_Unmarshal s (PlanResourceChangeRequest.Config req) (Schema_TerraformType s resourceSchema) = Inr config \<and>
      DynamicValue_Unmarshal s (ProposedNewState req) (Schema_TerraformType s resourceSchema) = Inr plan \<and>
      DynamicValue_Unmarshal s (PriorState req) (Schema_TerraformType s resourceSchema) = Inl err \<longrightarrow>
        planResourceChange s req =
          \<lparr>RequiresReplace = [],
           Diagnostics = diags1 @ diags2 @ [NewErrorDiagnostic ''Error parsing prior state''
             (''An unexpected error was encountered trying to parse the prior state. This is always an error in the provider. Please report the following to the provider developer:\<newline>\<newline>'' @ Error err)],
           PlannedState = None, PlannedPrivate = []\<rparr> \<and>
        length (filter (\<lambda>d. Severity d = SeverityError) (Diagnostics (planResourceChange s req))) = 1) \<and>
     (planResourceChange_passes s req = Inr (finalPlan, resp, modifyPlanResp) \<and>
      NewDynamicValue s (Type finalPlan) finalPlan = Inl err \<longrightarrow>
        planResourceChange s req =
          resp\<lparr>Diagnostics := Diagnostics resp @ [NewErrorDiagnostic ''Error converting response''
            (''There was an unexpected error converting the state in the response to a usable type. This is always a problem with the provider. Please report the following to the provider developer:\<newline>\<newline>'' @ Error err)]\<rparr>)"
proof -
  have ok1: "\<not> HasError diags1" and ok2: "\<not> HasError (diags1 @ diags2)"
    using ok by (simp_all add: HasError_def)
  have none: "filter (\<lambda>d. Severity d = SeverityError) (diags1 @ diags2) = []"
    using ok by (simp add: HasError_def list_ex_iff filter_empty_conv)
  have none1: "filter (\<lambda>d. Severity d = SeverityError) diags1 = []"
    and none2: "filter (\<lambda>d. Severity d = SeverityError) diags2 = []"
    using none by simp_all
  have sev: "Severity (NewErrorDiagnostic summary detail :: AttributePath Diagnostic) = SeverityError"
    for summary detail
    by (simp add: NewErrorDiagnostic_def)
  have head: "planResourceChange_inputs s req =
      (case DynamicValue_Unmarshal s (PlanResourceChangeRequest.Config req) (Schema_TerraformType s resourceSchema) of
         Inl err \<Rightarrow>
           Inl \<lparr>RequiresReplace = [],
             Diagnostics = diags1 @ diags2 @ [NewErrorDiagnostic ''Error parsing configuration''
               (''An unexpected error was encountered trying to parse the configuration. This is always an error in the provider. Please report the following to the provider developer:\<newline>\<newline>'' @ Error err)],
             PlannedState = None, PlannedPrivate = []\<rparr>
       | Inr config \<Rightarrow>
      (case DynamicValue_Unmarshal s (ProposedNewState req) (Schema_TerraformType s resourceSchema) of
         Inl err \<Rightarrow>
           Inl \<lparr>RequiresReplace = [],
             Diagnostics = diags1 @ diags2 @ [NewErrorDiagnostic ''Error parsing plan''
               (''There was an unexpected error parsing the plan. This is always a problem with the provider. Please report the following to the provider developer:\<newline>\<newline>'' @ Error err)],
             PlannedState = None, PlannedPrivate = []\<rparr>
       | Inr plan \<Rightarrow>
      (case DynamicValue_Unmarshal s (PriorState req) (Schema_TerraformType s resourceSchema) of
         Inl err \<Rightarrow>
           Inl \<lparr>RequiresReplace = [],
             Diagnostics = diags1 @ diags2 @ [NewErrorDiagnostic ''Error parsing prior state''
               (''An unexpected error was encountered trying to parse the prior state. This is always an error in the provider. Please report the following to the provider developer:\<newline>\<newline>'' @ Error err)],
             PlannedState = None, PlannedPrivate = []\<rparr>
       | Inr state \<Rightarrow>
           (let resp = \<lparr>RequiresReplace = [], Diagnostics = diags1 @ diags2,
                        PlannedState = Some (ProposedNewState req), PlannedPrivate = []\<rparr>;
                (resource, diags) = NewResource resourceType;
                resp = resp\<lparr>Diagnostics := Append (Diagnostics resp) diags\<rparr>
            in if HasError (Diagnostics resp) then Inl resp
               else Inr (resourceSchema, resource, config, plan, state, resp)))))"
    using rt sch ok1 ok2
    by (simp add: planResourceChange_inputs_def Append_def AddError_def Let_def
        split: sum.splits prod.splits)
  show ?thesis
  proof (intro conjI impI)
    show "planResourceChange s req =
          resp\<lparr>Diagnostics := Diagnostics resp @ [NewErrorDiagnostic ''Error converting response''
            (''There was an unexpected error converting the state in the response to a usable type. This is always a problem with the provider. Please report the following to the provider developer:\<newline>\<newline>'' @ Error err)]\<rparr>"
      if "planResourceChange_passes s req = Inr (finalPlan, resp, modifyPlanResp) \<and>
          NewDynamicValue s (Type finalPlan) finalPlan = Inl err"
      using that
      by (simp add: planResourceChange_def planResourceChange_response_def AddError_def Append_def)
  qed (simp_all add: planResourceChange_def planResourceChange_passes_def head none1 none2 sev)
qed


text \<open>
  C7 at a request whose config cannot be decoded, and at a resource whose \<^verbatim>\<open>ModifyPlan\<close>
  leaves a plan that cannot be encoded.
\<close>

theorem planResourceChange_conversion_failures_witness:
  "ResourceType (sample_Server sample_schema sample_wire no_attribute_modifiers (Some unencodable_ModifyPlan))
     (TypeName undecodable_request) =
     (\<lparr>GetSchema = (sample_schema, []),
       NewResource = (\<lparr>ModifyPlan = Some unencodable_ModifyPlan\<rparr>, [])\<rparr>, []) \<and>
   \<not> HasError ([] @ [] :: AttributePath Diagnostics) \<and>
   DynamicValue_Unmarshal (sample_Server sample_schema sample_wire no_attribute_modifiers (Some unencodable_ModifyPlan))
     (PlanResourceChangeRequest.Config undecodable_request) (sample_TerraformType sample_schema) =
     Inl (errorString ''cannot decode value'') \<and>
   planResourceChange (sample_Server sample_schema sample_wire no_attribute_modifiers (Some unencodable_ModifyPlan))
     undecodable_request =
     \<lparr>RequiresReplace = [],
      Diagnostics = [NewErrorDiagnostic ''Error parsing configuration''
        (''An unexpected error was encountered trying to parse the configuration. This is always an error in the provider. Please report the following to the provider developer:\<newline>\<newline>'' @ ''cannot decode value'')],
      PlannedState = None, PlannedPrivate = []\<rparr> \<and>
   planResourceChange_passes (sample_Server sample_schema sample_wire no_attribute_modifiers (Some unencodable_ModifyPlan))
     sample_request =
     Inr (sample_object (StringVal ''y'') (StringVal ''a''),
          \<lparr>RequiresReplace = [], Diagnostics = [], PlannedState = Some (wire ''proposed''), PlannedPrivate = []\<rparr>,
          Some \<lparr>RequiresReplace = [], Diagnostics = [],
                ModifyPlanResponse.Plan = \<lparr>Schema = sample_schema, Raw = sample_object (StringVal ''y'') (StringVal ''a'')\<rparr>\<rparr>) \<and>
   planResourceChange (sample_Server sample_schema sample_wire no_attribute_modifiers (Some unencodable_ModifyPlan))
     sample_request =
     \<lparr>RequiresReplace = [],
      Diagnostics = [NewErrorDiagnostic ''Error converting response''
        (''There was an unexpected error converting the state in the response to a usable type. This is always a problem with the provider. Please report the following to the provider developer:\<newline>\<newline>'' @ ''cannot encode value'')],
      PlannedState = Some (wire ''proposed''), PlannedPrivate = []\<rparr>"
proof -
  let ?s = "sample_Server sample_schema sample_wire no_attribute_modifiers (Some unencodable_ModifyPlan)"
  let ?rt = "\<lparr>GetSchema = (sample_schema, [] :: AttributePath Diagnostics),
       NewResource = (\<lparr>ModifyPlan = Some unencodable_ModifyPlan\<rparr>, [] :: AttributePath Diagnostics)\<rparr>"
  have rt: "ResourceType ?s (TypeName undecodable_request) = (?rt, [])"
    and rt': "ResourceType ?s (TypeName sample_request) = (?rt, [])"
    by (simp_all add: sample_Server_def)
  have sch: "GetSchema ?rt = (sample_schema, [])" by simp
  have ok: "\<not> HasError ([] @ [] :: AttributePath Diagnostics)" by (simp add: HasError_def)
  have u: "DynamicValue_Unmarshal ?s (PlanResourceChangeRequest.Config undecodable_request)
      (Schema_TerraformType ?s sample_schema) = Inl (errorString ''cannot decode value'')"
    by (simp add: sample_defs)
  have p: "planResourceChange_passes ?s sample_request =
     Inr (sample_object (StringVal ''y'') (StringVal ''a''),
          \<lparr>RequiresReplace = [], Diagnostics = [], PlannedState = Some (wire ''proposed''), PlannedPrivate = []\<rparr>,
          Some \<lparr>RequiresReplace = [], Diagnostics = [],
                ModifyPlanResponse.Plan = \<lparr>Schema = sample_schema, Raw = sample_object (StringVal ''y'') (StringVal ''a'')\<rparr>\<rparr>)"
    by (simp add: sample_defs plan_defs)
  have e: "NewDynamicValue ?s (Type (sample_object (StringVal ''y'') (StringVal ''a'')))
      (sample_object (StringVal ''y'') (StringVal ''a'')) = Inl (errorString ''cannot encode value'')"
    by (simp add: sample_defs)
  from planResourceChange_conversion_failures [OF rt sch ok, where err = "errorString ''cannot decode value''"] u
  have 1: "planResourceChange ?s undecodable_request =
     \<lparr>RequiresReplace = [],
      Diagnostics = [] @ [] @ [NewErrorDiagnostic ''Error parsing configuration''
        (''An unexpected error was encountered trying to parse the configuration. This is always an error in the provider. Please report the following to the provider developer:\<newline>\<newline>'' @ Error (errorString ''cannot decode value''))],
      PlannedState = None, PlannedPrivate = []\<rparr>"
    by blast
  from planResourceChange_conversion_failures [OF rt' sch ok, where err = "errorString ''cannot encode value''"
      and finalPlan = "sample_object (StringVal ''y'') (StringVal ''a'')"] p e
  have 2: "planResourceChange ?s sample_request =
     \<lparr>RequiresReplace = [], Diagnostics = [], PlannedState = Some (wire ''proposed''), PlannedPrivate = []\<rparr>
       \<lparr>Diagnostics := Diagnostics \<lparr>RequiresReplace = [], Diagnostics = [], PlannedState = Some (wire ''proposed''), PlannedPrivate = []\<rparr> @
         [NewErrorDiagnostic ''Error converting response''
            (''There was an unexpected error converting the state in the response to a usable type. This is always a problem with the provider. Please report the following to the provider developer:\<newline>\<newline>'' @ Error (errorString ''cannot encode value''))]\<rparr>"
    by blast
  show ?thesis using rt ok u p 1 2 by (simp add: sample_Server_def)
qed

end
